theory Spec2Isabelle
  imports Complex_Main
begin

section \<open>Embedding of the helper functions and configuration tables\<close>

text \<open>
  The repository is a set of Python scripts around a vendor pulse-sequencing SDK. The
  functions it defines itself are embedded below, one HOL definition per Python
  function, under the Python name. Python \<open>int\<close> is \<open>int\<close>; Python \<open>str\<close> is
  \<open>string\<close>; a raised exception is the \<open>Inl\<close> branch of a sum.
\<close>

subsection \<open>Exceptions\<close>

text \<open>
  \<open>Exception msg\<close> is the plain \<^verbatim>\<open>Exception(msg)\<close> that the repository's own code
  constructs and raises. The other constructors are exceptions that the Python
  interpreter or NumPy raises (\<open>TypeError\<close>, \<open>ValueError\<close>, \<open>OverflowError\<close>,
  \<open>KeyError\<close>, \<open>IndexError\<close>, \<open>AttributeError\<close>, \<open>ZeroDivisionError\<close>) or the vendor SDK
  (\<open>VendorError\<close>).
\<close>

datatype exn =
    Exception string
  | TypeError
  | ValueError
  | VendorError
  | OverflowError
  | KeyError
  | IndexError
  | AttributeError
  | ZeroDivisionError

subsection \<open>\<open>macros.py\<close>: \<open>binary\<close>\<close>

text \<open>
  \<^verbatim>\<open>def binary(n, length): return bin(n)[2:].zfill(length)\<close>

  \<open>bits\<close> are the digits Python's \<open>bin\<close> prints for a non-negative integer, most
  significant first (\<open>'0'\<close> for zero). \<open>bin\<close> puts \<open>0b\<close> in front of them, after the
  sign of a negative number. \<open>s[2:]\<close> is \<open>drop 2\<close>. \<open>str.zfill\<close> returns the string
  unchanged when it is already \<open>width\<close> long, and otherwise puts the zeros after a
  leading sign character.
\<close>

fun bits :: "nat \<Rightarrow> string" where
  "bits n = (if n < 2 then [if n = 0 then CHR ''0'' else CHR ''1'']
             else bits (n div 2) @ [if n mod 2 = 0 then CHR ''0'' else CHR ''1''])"

declare bits.simps [simp del]

definition bin :: "int \<Rightarrow> string" where
  "bin n = (if n < 0 then ''-0b'' @ bits (nat (- n)) else ''0b'' @ bits (nat n))"

definition zfill :: "string \<Rightarrow> int \<Rightarrow> string" where
  "zfill s width =
     (if width \<le> int (length s) then s
      else let fill = replicate (nat (width - int (length s))) CHR ''0'' in
        (case s of
           c # rest \<Rightarrow> if c = CHR ''+'' \<or> c = CHR ''-'' then c # fill @ rest else fill @ s
         | [] \<Rightarrow> fill @ s))"

definition binary :: "int \<Rightarrow> int \<Rightarrow> string" where
  "binary n len = zfill (drop 2 (bin n)) len"


subsection \<open>Floating-point numbers with infinities and NaN\<close>

text \<open>
  A Python float or NumPy \<open>float64\<close> is a real number, \<open>+inf\<close>, \<open>-inf\<close> or NaN. The
  operations below are the IEEE operations without rounding: the result of an
  operation on finite numbers is the exact real result, unless its magnitude reaches
  \<open>dbl_overflow\<close>, the least magnitude that rounds to an infinity
  (\<open>2 ^ 1024 - 2 ^ 970\<close>, halfway between the largest double and \<open>2 ^ 1024\<close>); then it is
  the infinity of that sign. NumPy returns the infinity or the NaN (with a warning);
  it does not raise. The sign of a zero is not modelled: \<open>Fin 0\<close> is \<open>+0.0\<close>.
\<close>

datatype xfl = Fin real | PInf | NInf | NaN

definition dbl_overflow :: real where
  "dbl_overflow = 2 ^ 1024 - 2 ^ 970"

definition rnd :: "real \<Rightarrow> xfl" where
  "rnd x = (if dbl_overflow \<le> x then PInf else if x \<le> - dbl_overflow then NInf else Fin x)"

fun xneg :: "xfl \<Rightarrow> xfl" where
  "xneg (Fin x) = Fin (- x)"
| "xneg PInf = NInf"
| "xneg NInf = PInf"
| "xneg NaN = NaN"

fun xadd :: "xfl \<Rightarrow> xfl \<Rightarrow> xfl" where
  "xadd NaN _ = NaN"
| "xadd _ NaN = NaN"
| "xadd (Fin x) (Fin y) = rnd (x + y)"
| "xadd PInf NInf = NaN"
| "xadd NInf PInf = NaN"
| "xadd PInf _ = PInf"
| "xadd _ PInf = PInf"
| "xadd NInf _ = NInf"
| "xadd _ NInf = NInf"

definition xsub :: "xfl \<Rightarrow> xfl \<Rightarrow> xfl" where
  "xsub x y = xadd x (xneg y)"

definition inf_of_sign :: "bool \<Rightarrow> xfl" where
  "inf_of_sign positive = (if positive then PInf else NInf)"

fun xmul :: "xfl \<Rightarrow> xfl \<Rightarrow> xfl" where
  "xmul NaN _ = NaN"
| "xmul _ NaN = NaN"
| "xmul (Fin x) (Fin y) = rnd (x * y)"
| "xmul (Fin x) PInf = (if x = 0 then NaN else inf_of_sign (0 < x))"
| "xmul (Fin x) NInf = (if x = 0 then NaN else inf_of_sign (x < 0))"
| "xmul PInf (Fin y) = (if y = 0 then NaN else inf_of_sign (0 < y))"
| "xmul NInf (Fin y) = (if y = 0 then NaN else inf_of_sign (y < 0))"
| "xmul PInf PInf = PInf"
| "xmul NInf NInf = PInf"
| "xmul PInf NInf = NInf"
| "xmul NInf PInf = NInf"

fun xdiv :: "xfl \<Rightarrow> xfl \<Rightarrow> xfl" where
  "xdiv NaN _ = NaN"
| "xdiv _ NaN = NaN"
| "xdiv (Fin x) (Fin y) =
     (if y = 0 then (if x = 0 then NaN else inf_of_sign (0 < x)) else rnd (x / y))"
| "xdiv (Fin x) PInf = Fin 0"
| "xdiv (Fin x) NInf = Fin 0"
| "xdiv PInf (Fin y) = inf_of_sign (0 \<le> y)"
| "xdiv NInf (Fin y) = inf_of_sign (y < 0)"
| "xdiv PInf PInf = NaN"
| "xdiv PInf NInf = NaN"
| "xdiv NInf PInf = NaN"
| "xdiv NInf NInf = NaN"

fun xexp :: "xfl \<Rightarrow> xfl" where
  "xexp (Fin x) = rnd (exp x)"
| "xexp PInf = PInf"
| "xexp NInf = Fin 0"
| "xexp NaN = NaN"

text \<open>
  \<open>xpow x y\<close> is the power \<open>x ** y\<close> of C's \<open>pow\<close>, which NumPy uses: \<open>1\<close> for
  \<open>y = 0\<close> and for \<open>x = 1\<close>, whatever the other argument is; for finite arguments the
  usual power of a positive base, \<open>0\<close> or \<open>+inf\<close> at base zero, and for a negative base
  the signed power when \<open>y\<close> is an integer and NaN otherwise.
\<close>

definition is_odd_integer :: "real \<Rightarrow> bool" where
  "is_odd_integer y \<longleftrightarrow> real_of_int \<lfloor>y\<rfloor> = y \<and> odd \<lfloor>y\<rfloor>"

definition pow_finite :: "real \<Rightarrow> real \<Rightarrow> xfl" where
  "pow_finite b e =
     (if 0 < b then rnd (b powr e)
      else if b = 0 then (if 0 < e then Fin 0 else PInf)
      else if real_of_int \<lfloor>e\<rfloor> = e
        then rnd ((if even \<lfloor>e\<rfloor> then 1 else - 1) * (\<bar>b\<bar> powr e))
        else NaN)"

fun xpow :: "xfl \<Rightarrow> xfl \<Rightarrow> xfl" where
  "xpow x (Fin e) =
     (if e = 0 then Fin 1
      else case x of
        Fin b \<Rightarrow> pow_finite b e
      | PInf \<Rightarrow> (if 0 < e then PInf else Fin 0)
      | NInf \<Rightarrow> (if 0 < e then (if is_odd_integer e then NInf else PInf) else Fin 0)
      | NaN \<Rightarrow> NaN)"
| "xpow x PInf =
     (case x of
        Fin b \<Rightarrow> (if \<bar>b\<bar> < 1 then Fin 0 else if \<bar>b\<bar> = 1 then Fin 1 else PInf)
      | PInf \<Rightarrow> PInf
      | NInf \<Rightarrow> PInf
      | NaN \<Rightarrow> NaN)"
| "xpow x NInf =
     (case x of
        Fin b \<Rightarrow> (if \<bar>b\<bar> < 1 then PInf else if \<bar>b\<bar> = 1 then Fin 1 else Fin 0)
      | PInf \<Rightarrow> Fin 0
      | NInf \<Rightarrow> Fin 0
      | NaN \<Rightarrow> NaN)"
| "xpow x NaN = (if x = Fin 1 then Fin 1 else NaN)"

subsection \<open>Floating-point numbers as real numbers\<close>

text \<open>
  \<open>IQ_imbalance\<close> and \<open>cross_entropy\<close> are modelled on a coarser type: a float is a
  real number (no rounding and no overflow), and \<open>None\<close> of type \<open>fl\<close> where IEEE
  arithmetic leaves the real numbers (a division by zero, a logarithm of a
  non-positive number): Python and NumPy do not raise there; they return an infinity
  or a NaN, and the model says that the computation left the reals and nothing more
  about it.
\<close>

type_synonym fl = "real option"

definition fl_div :: "real \<Rightarrow> real \<Rightarrow> fl" where
  "fl_div x y = (if y = 0 then None else Some (x / y))"

subsection \<open>\<open>two_qubit_rb_config.py\<close>: \<open>IQ_imbalance\<close>\<close>

text \<open>
  \<^verbatim>\<open>
  def IQ_imbalance(g, phi):
      c = np.cos(phi)
      s = np.sin(phi)
      N = 1 / ((1 - g**2) * (2 * c**2 - 1))
      return [float(N * x) for x in [(1 - g) * c, (1 + g) * s, (1 - g) * s, (1 + g) * c]]
  \<close>

  \<open>c\<close> is a NumPy scalar, so the division by a zero denominator gives an infinity
  (with a warning) and every entry of the result is then an infinity or a NaN.
\<close>

definition IQ_imbalance :: "real \<Rightarrow> real \<Rightarrow> fl list" where
  "IQ_imbalance g phi =
     (let c = cos phi;
          s = sin phi;
          N = fl_div 1 ((1 - g\<^sup>2) * (2 * c\<^sup>2 - 1))
      in map (\<lambda>x. map_option (\<lambda>n. n * x) N)
           [(1 - g) * c, (1 + g) * s, (1 - g) * s, (1 + g) * c])"

subsection \<open>\<open>configuration_cavity_locking_ETHZ_OPX1.py\<close>: \<open>gauss\<close>\<close>

text \<open>
  \<^verbatim>\<open>
  def gauss(amplitude, mu, sigma, length):
      t = np.linspace(-length / 2, length / 2, length)
      gauss_wave = amplitude * np.exp(-((t - mu) ** 2) / (2 * sigma**2))
      return [float(x) for x in gauss_wave]
  \<close>

  \<open>amplitude\<close>, \<open>mu\<close> and \<open>sigma\<close> are Python floats and \<open>length\<close> is a Python integer,
  written \<open>len\<close> below.

  \<open>linspace\<close> follows NumPy's \<open>numpy.linspace\<close> with its default \<open>endpoint=True\<close>: a
  negative \<open>num\<close> raises \<open>ValueError\<close>; otherwise the samples are
  \<open>arange(0, num) * step + start\<close> with \<open>step = (stop - start) / (num - 1)\<close> when
  \<open>num - 1 > 0\<close> (and \<open>arange(0, num) * (stop - start) + start\<close> when \<open>num - 1 = 0\<close>),
  and for \<open>num > 1\<close> the last sample is overwritten with \<open>stop\<close>. The samples are
  computed over the real numbers, as NumPy computes them without rounding when
  \<open>start\<close>, \<open>stop\<close> and \<open>stop - start\<close> are in the range of a float. The size of an
  array is not limited by memory.
\<close>

definition linspace :: "real \<Rightarrow> real \<Rightarrow> int \<Rightarrow> exn + real list" where
  "linspace start stop num =
     (if num < 0 then Inl ValueError
      else let div' = num - 1;
               delta = stop - start;
               y = map real [0..<nat num];
               y = (if 0 < div' then map (\<lambda>v. v * (delta / real_of_int div')) y
                    else map (\<lambda>v. v * delta) y);
               y = map (\<lambda>v. v + start) y
           in Inr (if 1 < num then y[nat num - 1 := stop] else y))"

text \<open>
  Two operations of Python itself raise on overflow instead of returning an infinity:
  the true division \<open>/\<close> of two integers (\<open>-length / 2\<close>) and the power \<open>**\<close> of a
  float (\<open>sigma**2\<close>). The product \<open>2 * sigma**2\<close> of Python floats overflows to an
  infinity silently.
\<close>

definition int_truediv :: "int \<Rightarrow> int \<Rightarrow> exn + real" where
  "int_truediv a b =
     (if b = 0 then Inl ZeroDivisionError
      else if dbl_overflow \<le> \<bar>real_of_int a / real_of_int b\<bar> then Inl OverflowError
      else Inr (real_of_int a / real_of_int b))"

definition float_pow2 :: "xfl \<Rightarrow> exn + xfl" where
  "float_pow2 x =
     (case x of
        Fin v \<Rightarrow> if dbl_overflow \<le> v * v then Inl OverflowError else Inr (Fin (v * v))
      | PInf \<Rightarrow> Inr PInf
      | NInf \<Rightarrow> Inr PInf
      | NaN \<Rightarrow> Inr NaN)"

text \<open>
  The NumPy arrays that the function creates live in a store of arrays, addressed by
  their position; every NumPy operation allocates the array that it returns.
  Python evaluates the left operand \<open>-((t - mu) ** 2)\<close> of the division before the right
  operand \<open>2 * sigma**2\<close>. The list comprehension copies the last array into a new
  Python list, which is the result.
\<close>

type_synonym xstore = "xfl list list"

definition xalloc :: "xfl list \<Rightarrow> xstore \<Rightarrow> nat \<times> xstore" where
  "xalloc xs s = (length s, s @ [xs])"

definition np_elementwise :: "(xfl \<Rightarrow> xfl) \<Rightarrow> nat \<Rightarrow> xstore \<Rightarrow> nat \<times> xstore" where
  "np_elementwise f x s = xalloc (map f (s ! x)) s"

definition gauss ::
  "xfl \<Rightarrow> xfl \<Rightarrow> xfl \<Rightarrow> int \<Rightarrow> xstore \<Rightarrow> (exn + xfl list) \<times> xstore" where
  "gauss amplitude mu sigma len s =
     (case int_truediv (- len) 2 of
        Inl e \<Rightarrow> (Inl e, s)
      | Inr start \<Rightarrow>
     (case int_truediv len 2 of
        Inl e \<Rightarrow> (Inl e, s)
      | Inr stop \<Rightarrow>
     (case linspace start stop len of
        Inl e \<Rightarrow> (Inl e, s)
      | Inr points \<Rightarrow>
         (let (t, s) = xalloc (map Fin points) s;
              (diff, s) = np_elementwise (\<lambda>x. xsub x mu) t s;
              (squared, s) = np_elementwise (\<lambda>x. xmul x x) diff s;
              (negated, s) = np_elementwise xneg squared s
          in case float_pow2 sigma of
               Inl e \<Rightarrow> (Inl e, s)
             | Inr sigma2 \<Rightarrow>
                (let denominator = xmul (Fin 2) sigma2;
                     (quotient, s) = np_elementwise (\<lambda>x. xdiv x denominator) negated s;
                     (exponential, s) = np_elementwise xexp quotient s;
                     (gauss_wave, s) = np_elementwise (xmul amplitude) exponential s
                 in (Inr (s ! gauss_wave), s))))))"







subsection \<open>\<open>macros.py\<close>: \<open>exponential_decay\<close>\<close>

text \<open>
  \<^verbatim>\<open>
  def exponential_decay(cycle_depths, a, layer_fid):
      return a * layer_fid**cycle_depths
  \<close>

  \<open>cycle_depths\<close> is a NumPy array and \<open>a\<close> and \<open>layer_fid\<close> are floats: NumPy applies
  the power and then the multiplication to each entry.
\<close>

definition exponential_decay :: "xfl list \<Rightarrow> xfl \<Rightarrow> xfl \<Rightarrow> xfl list" where
  "exponential_decay cycle_depths a layer_fid =
     map (\<lambda>d. xmul a (xpow layer_fid d)) cycle_depths"

subsection \<open>\<open>macros.py\<close>: \<open>cross_entropy\<close>\<close>

text \<open>
  \<^verbatim>\<open>
  def cross_entropy(p, q, epsilon=1e-15):
      q = np.maximum(q, epsilon)  # Avoid taking the logarithm of zero
      x_entropy = -np.sum(p * np.log(q))
      return x_entropy
  \<close>

  \<open>p\<close> and \<open>q\<close> are NumPy arrays: mutable objects that the caller still holds after
  the call. The model keeps arrays in a store, a list of arrays addressed by their
  position; \<open>p\<close> and \<open>q\<close> are addresses, and every NumPy operation allocates the array
  it returns at a fresh address. Arrays are one-dimensional. \<open>np.log\<close> of a
  non-positive number is an infinity or a NaN (\<open>None\<close>). \<open>*\<close> broadcasts an array of
  length one and raises NumPy's \<open>ValueError\<close> on other arrays of different lengths. The
  assignment \<open>q = np.maximum(q, epsilon)\<close> binds the local name \<open>q\<close> to the new
  array, written \<open>q'\<close> below.
\<close>

type_synonym ndarray = "fl list"

type_synonym store = "ndarray list"

definition alloc :: "ndarray \<Rightarrow> store \<Rightarrow> nat \<times> store" where
  "alloc xs s = (length s, s @ [xs])"

definition fl_log :: "fl \<Rightarrow> fl" where
  "fl_log x = (case x of None \<Rightarrow> None | Some v \<Rightarrow> if 0 < v then Some (ln v) else None)"

definition fl_mul :: "fl \<Rightarrow> fl \<Rightarrow> fl" where
  "fl_mul x y = (case (x, y) of (Some a, Some b) \<Rightarrow> Some (a * b) | _ \<Rightarrow> None)"

definition fl_add :: "fl \<Rightarrow> fl \<Rightarrow> fl" where
  "fl_add x y = (case (x, y) of (Some a, Some b) \<Rightarrow> Some (a + b) | _ \<Rightarrow> None)"

definition np_maximum :: "nat \<Rightarrow> real \<Rightarrow> store \<Rightarrow> nat \<times> store" where
  "np_maximum x c s = alloc (map (map_option (\<lambda>v. max v c)) (s ! x)) s"

definition np_log :: "nat \<Rightarrow> store \<Rightarrow> nat \<times> store" where
  "np_log x s = alloc (map fl_log (s ! x)) s"

definition np_multiply :: "nat \<Rightarrow> nat \<Rightarrow> store \<Rightarrow> exn + nat \<times> store" where
  "np_multiply x y s =
     (let xs = s ! x; ys = s ! y in
      if length xs = length ys then Inr (alloc (map2 fl_mul xs ys) s)
      else if length xs = 1 then Inr (alloc (map (fl_mul (hd xs)) ys) s)
      else if length ys = 1 then Inr (alloc (map (\<lambda>v. fl_mul v (hd ys)) xs) s)
      else Inl ValueError)"

definition np_sum :: "nat \<Rightarrow> store \<Rightarrow> fl" where
  "np_sum x s = foldl fl_add (Some 0) (s ! x)"

definition cross_entropy :: "nat \<Rightarrow> nat \<Rightarrow> real \<Rightarrow> store \<Rightarrow> (exn + fl) \<times> store" where
  "cross_entropy p q epsilon s =
     (let (q', s) = np_maximum q epsilon s;
          (logq, s) = np_log q' s
      in case np_multiply p logq s of
           Inl e \<Rightarrow> (Inl e, s)
         | Inr (pl, s) \<Rightarrow> (Inr (map_option uminus (np_sum pl s)), s))"

text \<open>The default \<open>epsilon=1e-15\<close>.\<close>

definition cross_entropy_default :: "nat \<Rightarrow> nat \<Rightarrow> store \<Rightarrow> (exn + fl) \<times> store" where
  "cross_entropy_default p q s = cross_entropy p q (1 / 10 ^ 15) s"


subsection \<open>\<open>IQ_imbalance\<close> with the lists it creates\<close>

text \<open>
  For claims C7 and C1 the body of \<open>IQ_imbalance\<close> once more, as a call in a store:
  the two Python lists that it creates are placed in the store, first the list
  display \<open>[(1 - g) * c, ...]\<close> and then the list that the comprehension builds from
  it, which is returned. \<open>c\<close>, \<open>s\<close> and \<open>N\<close> are numbers, which Python cannot change in
  place. \<open>g\<close> is a Python float, and the power \<open>g**2\<close> of a Python float raises
  \<open>OverflowError\<close> when the square is too large for a double; the other operations
  have a NumPy scalar as an operand and do not raise. \<open>returned_list\<close> reads the list
  that a call returns.
\<close>

definition IQ_imbalance_call :: "real \<Rightarrow> real \<Rightarrow> store \<Rightarrow> (exn + nat) \<times> store" where
  "IQ_imbalance_call g phi st =
     (let c = cos phi;
          s = sin phi
      in if dbl_overflow \<le> g\<^sup>2 then (Inl OverflowError, st)
         else
          (let N = fl_div 1 ((1 - g\<^sup>2) * (2 * c\<^sup>2 - 1));
               (xs, st) = alloc [Some ((1 - g) * c), Some ((1 + g) * s),
                                 Some ((1 - g) * s), Some ((1 + g) * c)] st;
               (result, st) = alloc (map (fl_mul N) (st ! xs)) st
           in (Inr result, st)))"

definition returned_list :: "(exn + nat) \<times> store \<Rightarrow> exn + ndarray" where
  "returned_list r = (case fst r of Inl e \<Rightarrow> Inl e | Inr a \<Rightarrow> Inr (snd r ! a))"

subsection \<open>\<open>macros.py\<close>: \<open>reset_qubit\<close> and \<open>active_reset\<close>\<close>

text \<open>
  The macros check their arguments and then call the vendor's QUA functions
  (\<open>wait\<close>, \<open>declare\<close>, \<open>assign\<close>, \<open>align\<close>, \<open>measure\<close>, \<open>play\<close>, \<open>while_\<close>, \<open>switch_\<close>),
  which add statements to the QUA program under construction. The vendor functions
  are outside the repository: the model records the statement each call adds and
  takes the call to succeed.

  An argument value is \<open>None\<close>, a Python integer, a Python float or a QUA variable
  (identified by its number). Python raises \<open>TypeError\<close> when \<open>None\<close> is compared, added
  or converted with \<open>float\<close>; \<open>float\<close> of a QUA variable raises \<open>TypeError\<close> as well,
  and a comparison with a QUA variable builds a QUA expression that the vendor
  refuses to use as a Python truth value (\<open>VendorError\<close>). Python compares an
  integer with a float exactly, but converting an integer to a float (\<open>float(n)\<close>,
  \<open>n + 2**-28\<close>) raises \<open>OverflowError\<close> when the integer is too large for a double.
\<close>

datatype arg = ANone | AInt int | AFloat xfl | AVar nat

datatype qua_type = Fixed | Integer

datatype qexpr =
    QNone
  | QLit xfl
  | QVar nat
  | QPlus qexpr qexpr
  | QGt qexpr qexpr
  | QLt qexpr qexpr
  | QAnd qexpr qexpr

datatype qua_stmt =
    Declare nat qua_type
  | DeclareStream nat
  | AssignVariablesToElement string qexpr qexpr
  | Wait qexpr string
  | Assign qexpr qexpr
  | Align string string
  | Measure string string "(string \<times> string \<times> string \<times> string \<times> qexpr) list"
  | Play string string "qexpr option"
  | ChannelPlay string string "qexpr list"
  | FrameRotation2pi xfl string
  | While qexpr "qua_stmt list"
  | Switch qexpr bool "(int \<times> qua_stmt list) list"

record qua_prog =
  next_var :: nat
  next_stream :: nat
  stmts :: "qua_stmt list"

definition emit :: "qua_stmt \<Rightarrow> qua_prog \<Rightarrow> qua_prog" where
  "emit st s = s\<lparr>stmts := stmts s @ [st]\<rparr>"

definition qua_declare :: "qua_type \<Rightarrow> qua_prog \<Rightarrow> qexpr \<times> qua_prog" where
  "qua_declare ty s =
     (QVar (next_var s),
      s\<lparr>next_var := Suc (next_var s), stmts := stmts s @ [Declare (next_var s) ty]\<rparr>)"

definition of_arg :: "arg \<Rightarrow> qexpr" where
  "of_arg a = (case a of ANone \<Rightarrow> QNone | AInt i \<Rightarrow> QLit (Fin (real_of_int i))
               | AFloat x \<Rightarrow> QLit x | AVar v \<Rightarrow> QVar v)"

definition float_less :: "xfl \<Rightarrow> int \<Rightarrow> bool" where
  "float_less x k = (case x of Fin v \<Rightarrow> v < real_of_int k | NInf \<Rightarrow> True | _ \<Rightarrow> False)"

definition py_lt :: "arg \<Rightarrow> int \<Rightarrow> exn + bool" where
  "py_lt a k = (case a of ANone \<Rightarrow> Inl TypeError | AInt i \<Rightarrow> Inr (i < k)
               | AFloat x \<Rightarrow> Inr (float_less x k) | AVar v \<Rightarrow> Inl VendorError)"

definition int_too_large :: "int \<Rightarrow> bool" where
  "int_too_large i \<longleftrightarrow> dbl_overflow \<le> \<bar>real_of_int i\<bar>"

definition float_integer_valued :: "xfl \<Rightarrow> bool" where
  "float_integer_valued x = (case x of Fin v \<Rightarrow> real_of_int \<lfloor>v\<rfloor> = v | _ \<Rightarrow> False)"

definition float_is_integer :: "arg \<Rightarrow> exn + bool" where
  "float_is_integer a =
     (case a of
        ANone \<Rightarrow> Inl TypeError
      | AInt i \<Rightarrow> if int_too_large i then Inl OverflowError else Inr True
      | AFloat x \<Rightarrow> Inr (float_integer_valued x)
      | AVar v \<Rightarrow> Inl TypeError)"

definition py_add :: "arg \<Rightarrow> real \<Rightarrow> exn + qexpr" where
  "py_add a c =
     (case a of
        ANone \<Rightarrow> Inl TypeError
      | AInt i \<Rightarrow> if int_too_large i then Inl OverflowError
                  else Inr (QLit (xadd (Fin (real_of_int i)) (Fin c)))
      | AFloat x \<Rightarrow> Inr (QLit (xadd x (Fin c)))
      | AVar v \<Rightarrow> Inr (QPlus (QVar v) (QLit (Fin c))))"

text \<open>
  The messages of the four \<^verbatim>\<open>raise Exception(...)\<close> statements. Three of them put a
  keyword name between single quotes.
\<close>

definition quoted :: "string \<Rightarrow> string" where
  "quoted name = CHR 0x27 # name @ [CHR 0x27]"

definition cooldown_time_message :: string where
  "cooldown_time_message = quoted ''cooldown_time'' @ '' must be an integer > 4 clock cycles''"

definition threshold_message :: string where
  "threshold_message = quoted ''threshold'' @ '' must be specified for active reset.''"

definition max_tries_message :: string where
  "max_tries_message = quoted ''max_tries'' @ '' must be an integer > 0.''"

definition max_count_message :: string where
  "max_count_message = ''max_count must be an integer >= 1.''"

text \<open>
  \<^verbatim>\<open>
  def active_reset(threshold, qubit, resonator, max_tries=1, Ig=None):
      if Ig is None:
          Ig = declare(fixed)
      if (max_tries < 1) or (not float(max_tries).is_integer()):
          raise Exception("max_count must be an integer >= 1.")
      assign(Ig, threshold + 2**-28)
      counter = declare(int)
      assign(counter, 0)
      align(qubit, resonator)
      with while_((Ig > threshold) & (counter < max_tries)):
          measure("readout", resonator, None,
                  dual_demod.full("rotated_cos", "out1", "rotated_sin", "out2", Ig))
          play("x180", qubit, condition=(Ig > threshold))
          assign(counter, counter + 1)
      return Ig, counter
  \<close>
  \<open>or\<close> evaluates its right operand only when the left one is false.
\<close>

definition active_reset ::
  "arg \<Rightarrow> string \<Rightarrow> string \<Rightarrow> arg \<Rightarrow> arg \<Rightarrow> qua_prog \<Rightarrow> (exn + qexpr \<times> qexpr) \<times> qua_prog" where
  "active_reset threshold qubit resonator max_tries Ig s =
     (let (Ig, s) = (if Ig = ANone then qua_declare Fixed s else (of_arg Ig, s)) in
      case (case py_lt max_tries 1 of
              Inl e \<Rightarrow> Inl e
            | Inr True \<Rightarrow> Inr True
            | Inr False \<Rightarrow> map_sum id Not (float_is_integer max_tries)) of
        Inl e \<Rightarrow> (Inl e, s)
      | Inr True \<Rightarrow> (Inl (Exception max_count_message), s)
      | Inr False \<Rightarrow>
         (case py_add threshold (1 / 2 ^ 28) of
            Inl e \<Rightarrow> (Inl e, s)
          | Inr init \<Rightarrow>
             (let s = emit (Assign Ig init) s;
                  (counter, s) = qua_declare Integer s;
                  s = emit (Assign counter (QLit (Fin 0))) s;
                  s = emit (Align qubit resonator) s;
                  s = emit (While (QAnd (QGt Ig (of_arg threshold)) (QLt counter (of_arg max_tries)))
                        [Measure ''readout'' resonator
                           [(''rotated_cos'', ''out1'', ''rotated_sin'', ''out2'', Ig)],
                         Play ''x180'' qubit (Some (QGt Ig (of_arg threshold))),
                         Assign counter (QPlus counter (QLit (Fin 1)))]) s
              in (Inr (Ig, counter), s))))"

text \<open>
  \<^verbatim>\<open>
  def reset_qubit(method, qubit, resonator, **kwargs):
      if method == "cooldown":
          cooldown_time = kwargs.get("cooldown_time", None)
          if (cooldown_time is None) or (cooldown_time < 4):
              raise Exception("'cooldown_time' must be an integer > 4 clock cycles")
          wait(cooldown_time, qubit)
      elif method == "active":
          threshold = kwargs.get("threshold", None)
          if threshold is None:
              raise Exception("'threshold' must be specified for active reset.")
          max_tries = kwargs.get("max_tries", 1)
          if (max_tries is None) or (not float(max_tries).is_integer()) or (max_tries < 1):
              raise Exception("'max_tries' must be an integer > 0.")
          Ig = kwargs.get("Ig", None)
          return active_reset(threshold, qubit, resonator, max_tries=max_tries, Ig=Ig)
  \<close>
  \<open>kwargs\<close> is a dictionary from keyword names to argument values; a keyword that was
  not passed has no entry.
\<close>

definition kwargs_get :: "(string \<rightharpoonup> arg) \<Rightarrow> string \<Rightarrow> arg \<Rightarrow> arg" where
  "kwargs_get kwargs key dflt = (case kwargs key of None \<Rightarrow> dflt | Some v \<Rightarrow> v)"

definition reset_qubit ::
  "string \<Rightarrow> string \<Rightarrow> string \<Rightarrow> (string \<rightharpoonup> arg) \<Rightarrow> qua_prog
     \<Rightarrow> (exn + (qexpr \<times> qexpr) option) \<times> qua_prog" where
  "reset_qubit method qubit resonator kwargs s =
     (if method = ''cooldown'' then
        (let cooldown_time = kwargs_get kwargs ''cooldown_time'' ANone in
         case (if cooldown_time = ANone then Inr True else py_lt cooldown_time 4) of
           Inl e \<Rightarrow> (Inl e, s)
         | Inr True \<Rightarrow> (Inl (Exception cooldown_time_message), s)
         | Inr False \<Rightarrow> (Inr None, emit (Wait (of_arg cooldown_time) qubit) s))
      else if method = ''active'' then
        (let threshold = kwargs_get kwargs ''threshold'' ANone in
         if threshold = ANone
         then (Inl (Exception threshold_message), s)
         else
          (let max_tries = kwargs_get kwargs ''max_tries'' (AInt 1) in
           case (if max_tries = ANone then Inr True
                 else case float_is_integer max_tries of
                        Inl e \<Rightarrow> Inl e
                      | Inr False \<Rightarrow> Inr True
                      | Inr True \<Rightarrow> py_lt max_tries 1) of
             Inl e \<Rightarrow> (Inl e, s)
           | Inr True \<Rightarrow> (Inl (Exception max_tries_message), s)
           | Inr False \<Rightarrow>
              (let Ig = kwargs_get kwargs ''Ig'' ANone in
               case active_reset threshold qubit resonator max_tries Ig s of
                 (Inl e, s) \<Rightarrow> (Inl e, s)
               | (Inr r, s) \<Rightarrow> (Inr (Some r), s))))
      else (Inr None, s))"

text \<open>
  The terms of claims C1 and C8. \<open>arg_less a k\<close>: \<open>a\<close> is a number less than \<open>k\<close>.
  \<open>arg_integer_valued a\<close>: \<open>a\<close> is an integer or a float with an integer value.
  \<open>conversion_overflows a\<close>: \<open>a\<close> is an integer too large for a float.
  \<open>claimed_raise\<close> is the condition of claim C8 as it is written, with "absent" read
  as "not passed". \<open>validation_fails\<close> is the condition the code tests, where a keyword
  passed as \<open>None\<close> counts like one that was not passed, and \<open>raise_condition\<close> adds
  the two conversions that can overflow once \<open>threshold\<close> has passed its test.
\<close>

definition is_number :: "arg \<Rightarrow> bool" where
  "is_number a = (case a of AInt i \<Rightarrow> True | AFloat x \<Rightarrow> True | _ \<Rightarrow> False)"

definition arg_less :: "arg \<Rightarrow> int \<Rightarrow> bool" where
  "arg_less a k = (case a of AInt i \<Rightarrow> i < k | AFloat x \<Rightarrow> float_less x k | _ \<Rightarrow> False)"

definition arg_integer_valued :: "arg \<Rightarrow> bool" where
  "arg_integer_valued a =
     (case a of AInt i \<Rightarrow> True | AFloat x \<Rightarrow> float_integer_valued x | _ \<Rightarrow> False)"

definition conversion_overflows :: "arg \<Rightarrow> bool" where
  "conversion_overflows a = (case a of AInt i \<Rightarrow> int_too_large i | _ \<Rightarrow> False)"

definition number_or_none :: "arg \<Rightarrow> bool" where
  "number_or_none a = (case a of AVar v \<Rightarrow> False | _ \<Rightarrow> True)"

definition claimed_raise :: "string \<Rightarrow> (string \<rightharpoonup> arg) \<Rightarrow> bool" where
  "claimed_raise method kwargs \<longleftrightarrow>
     (method = ''cooldown'' \<and>
        (case kwargs ''cooldown_time'' of None \<Rightarrow> True | Some v \<Rightarrow> arg_less v 4))
   \<or> (method = ''active'' \<and>
        (kwargs ''threshold'' = None
         \<or> (let max_tries = kwargs_get kwargs ''max_tries'' (AInt 1)
            in max_tries = ANone \<or> \<not> arg_integer_valued max_tries \<or> arg_less max_tries 1)))"

definition validation_fails :: "string \<Rightarrow> (string \<rightharpoonup> arg) \<Rightarrow> bool" where
  "validation_fails method kwargs \<longleftrightarrow>
     (method = ''cooldown'' \<and>
        (let cooldown_time = kwargs_get kwargs ''cooldown_time'' ANone
         in cooldown_time = ANone \<or> arg_less cooldown_time 4))
   \<or> (method = ''active'' \<and>
        (kwargs_get kwargs ''threshold'' ANone = ANone
         \<or> (let max_tries = kwargs_get kwargs ''max_tries'' (AInt 1)
            in max_tries = ANone \<or> \<not> arg_integer_valued max_tries \<or> arg_less max_tries 1)))"

definition raise_condition :: "string \<Rightarrow> (string \<rightharpoonup> arg) \<Rightarrow> bool" where
  "raise_condition method kwargs \<longleftrightarrow>
     validation_fails method kwargs
   \<or> (method = ''active'' \<and> kwargs_get kwargs ''threshold'' ANone \<noteq> ANone
      \<and> (conversion_overflows (kwargs_get kwargs ''max_tries'' (AInt 1))
         \<or> conversion_overflows (kwargs_get kwargs ''threshold'' ANone)))"

definition empty_prog :: qua_prog where
  "empty_prog = \<lparr>next_var = 0, next_stream = 0, stmts = []\<rparr>"

subsection \<open>\<open>macros.py\<close> and \<open>two_qubit_rb_config.py\<close>: the other QUA macros\<close>

text \<open>
  The remaining macros only index their Python arguments and call vendor functions.
  \<open>sequence_results\<close> runs the computations of a Python loop in order and stops at
  the first exception. When an exception interrupts the body of a \<open>with\<close> block, the
  model returns the program as it was when the block was entered: what the vendor's
  context manager leaves behind is not part of the repository.
\<close>

fun sequence_results :: "(exn + 'a) list \<Rightarrow> exn + 'a list" where
  "sequence_results [] = Inr []"
| "sequence_results (x # xs) =
     (case x of
        Inl e \<Rightarrow> Inl e
      | Inr v \<Rightarrow> (case sequence_results xs of Inl e \<Rightarrow> Inl e | Inr vs \<Rightarrow> Inr (v # vs)))"

text \<open>
  A gate dictionary maps gate indices to dictionaries with a \<open>"gate"\<close> entry, an object
  that may have the attributes \<open>name\<close> and \<open>label\<close>, and an \<open>"amp_matrix"\<close> entry, a list
  of numbers. A dictionary is a list of its items; \<open>dict_len\<close> counts its keys.
  Indexing a dictionary with a missing key raises \<open>KeyError\<close>, indexing a list out
  of range \<open>IndexError\<close>, indexing an object that is no list \<open>TypeError\<close>, and
  reading a missing attribute \<open>AttributeError\<close>.
\<close>

datatype gate_field = GateObject "string option" "string option" | Numbers "xfl list"

type_synonym gate_dict = "(int \<times> (string \<times> gate_field) list) list"

definition gate_item :: "gate_dict \<Rightarrow> int \<Rightarrow> string \<Rightarrow> exn + gate_field" where
  "gate_item gate_dict i key =
     (case map_of gate_dict i of
        None \<Rightarrow> Inl KeyError
      | Some entry \<Rightarrow> (case map_of entry key of None \<Rightarrow> Inl KeyError | Some v \<Rightarrow> Inr v))"

definition attribute_name :: "gate_field \<Rightarrow> exn + string" where
  "attribute_name v =
     (case v of GateObject (Some n) l \<Rightarrow> Inr n | _ \<Rightarrow> Inl AttributeError)"

definition attribute_label :: "gate_field \<Rightarrow> exn + string" where
  "attribute_label v =
     (case v of GateObject n (Some l) \<Rightarrow> Inr l | _ \<Rightarrow> Inl AttributeError)"

definition dict_len :: "('k \<times> 'v) list \<Rightarrow> nat" where
  "dict_len d = length (remdups (map fst d))"

definition number_at :: "gate_field \<Rightarrow> nat \<Rightarrow> exn + xfl" where
  "number_at v j =
     (case v of
        Numbers xs \<Rightarrow> if j < length xs then Inr (xs ! j) else Inl IndexError
      | GateObject n l \<Rightarrow> Inl TypeError)"

text \<open>
  \<^verbatim>\<open>
  def assign_amplitude_matrix(gate, amp_matrix, gate_dict: dict):
      with switch_(gate):
          for i in range(len(gate_dict)):
              with case_(i):
                  for j in range(4):
                      assign(amp_matrix[j], gate_dict[i]["amp_matrix"][j])
  \<close>
  \<open>amp_matrix\<close> is a Python list of QUA variables.
\<close>

definition amplitude_assignment :: "qexpr list \<Rightarrow> gate_dict \<Rightarrow> nat \<Rightarrow> nat \<Rightarrow> exn + qua_stmt" where
  "amplitude_assignment amp_matrix gate_dict i j =
     (if length amp_matrix \<le> j then Inl IndexError
      else case gate_item gate_dict (int i) ''amp_matrix'' of
             Inl e \<Rightarrow> Inl e
           | Inr v \<Rightarrow> (case number_at v j of
                         Inl e \<Rightarrow> Inl e
                       | Inr x \<Rightarrow> Inr (Assign (amp_matrix ! j) (QLit x))))"

definition assign_amplitude_matrix ::
  "qexpr \<Rightarrow> qexpr list \<Rightarrow> gate_dict \<Rightarrow> qua_prog \<Rightarrow> (exn + unit) \<times> qua_prog" where
  "assign_amplitude_matrix gate amp_matrix gate_dict s =
     (case sequence_results
             (map (\<lambda>i. map_sum id (\<lambda>body. (int i, body))
                         (sequence_results
                            (map (amplitude_assignment amp_matrix gate_dict i) [0..<4])))
                  [0..<dict_len gate_dict]) of
        Inl e \<Rightarrow> (Inl e, s)
      | Inr cases \<Rightarrow> (Inr (), emit (Switch gate False cases) s))"

text \<open>
  \<^verbatim>\<open>
  def qua_declaration(n_qubits: int, readout_elements: list):
      I, Q = [[declare(fixed) for _ in range(n_qubits)] for _ in range(2)]
      I_st, Q_st = [[declare_stream() for _ in range(n_qubits)] for _ in range(2)]
      for i in range(n_qubits):
          assign_variables_to_element(readout_elements[i].name, I[i], Q[i])
      return I, I_st, Q, Q_st
  \<close>
  A readout element is an object with a \<open>name\<close>.
\<close>

record channel =
  channel_name :: string

definition declare_stream :: "qua_prog \<Rightarrow> nat \<times> qua_prog" where
  "declare_stream s =
     (next_stream s,
      s\<lparr>next_stream := Suc (next_stream s), stmts := stmts s @ [DeclareStream (next_stream s)]\<rparr>)"

fun declare_many :: "qua_type \<Rightarrow> nat \<Rightarrow> qua_prog \<Rightarrow> qexpr list \<times> qua_prog" where
  "declare_many ty 0 s = ([], s)"
| "declare_many ty (Suc n) s =
     (let (v, s) = qua_declare ty s; (vs, s) = declare_many ty n s in (v # vs, s))"

fun declare_streams :: "nat \<Rightarrow> qua_prog \<Rightarrow> nat list \<times> qua_prog" where
  "declare_streams 0 s = ([], s)"
| "declare_streams (Suc n) s =
     (let (v, s) = declare_stream s; (vs, s) = declare_streams n s in (v # vs, s))"

fun assign_elements ::
  "channel list \<Rightarrow> qexpr list \<Rightarrow> qexpr list \<Rightarrow> nat list \<Rightarrow> qua_prog \<Rightarrow> (exn + unit) \<times> qua_prog" where
  "assign_elements readout_elements I Q [] s = (Inr (), s)"
| "assign_elements readout_elements I Q (i # rest) s =
     (if length readout_elements \<le> i then (Inl IndexError, s)
      else assign_elements readout_elements I Q rest
             (emit (AssignVariablesToElement (channel_name (readout_elements ! i)) (I ! i) (Q ! i)) s))"

definition qua_declaration ::
  "int \<Rightarrow> channel list \<Rightarrow> qua_prog
     \<Rightarrow> (exn + qexpr list \<times> nat list \<times> qexpr list \<times> nat list) \<times> qua_prog" where
  "qua_declaration n_qubits readout_elements s =
     (let n = nat n_qubits;
          (I, s) = declare_many Fixed n s;
          (Q, s) = declare_many Fixed n s;
          (I_st, s) = declare_streams n s;
          (Q_st, s) = declare_streams n s
      in case assign_elements readout_elements I Q [0..<n] s of
           (Inl e, s) \<Rightarrow> (Inl e, s)
         | (Inr u, s) \<Rightarrow> (Inr (I, I_st, Q, Q_st), s))"

text \<open>
  \<^verbatim>\<open>
  def play_T_gate_set(gate, amp_matrix, qubit_el: Channel, baseline_op: str):
      with switch_(gate, unsafe=True):
          for j in range(2):  # X90, Y90
              with case_(j):
                  qubit_el.play(baseline_op, amp(*amp_matrix))
          with case_(2):  # T gate
              frame_rotation_2pi(0.125, qubit_el.name)

  def play_SW_gate_set(gate, amp_matrix, qubit_el: Channel, baseline_op: str):
      with switch_(gate, unsafe=True):
          for j in range(3):  # X90, Y90, SW
              with case_(j):
                  qubit_el.play(baseline_op, amp(*amp_matrix))
  \<close>
  The vendor's \<open>amp\<close> takes one to four positional arguments; Python raises
  \<open>TypeError\<close> for a call with none or with more than four.
\<close>

definition amp :: "qexpr list \<Rightarrow> exn + qexpr list" where
  "amp vs = (if vs = [] \<or> 4 < length vs then Inl TypeError else Inr vs)"

definition play_case :: "qexpr list \<Rightarrow> channel \<Rightarrow> string \<Rightarrow> nat \<Rightarrow> exn + int \<times> qua_stmt list" where
  "play_case amp_matrix qubit_el baseline_op j =
     (case amp amp_matrix of
        Inl e \<Rightarrow> Inl e
      | Inr a \<Rightarrow> Inr (int j, [ChannelPlay (channel_name qubit_el) baseline_op a]))"

definition play_T_gate_set ::
  "qexpr \<Rightarrow> qexpr list \<Rightarrow> channel \<Rightarrow> string \<Rightarrow> qua_prog \<Rightarrow> (exn + unit) \<times> qua_prog" where
  "play_T_gate_set gate amp_matrix qubit_el baseline_op s =
     (case sequence_results (map (play_case amp_matrix qubit_el baseline_op) [0..<2]) of
        Inl e \<Rightarrow> (Inl e, s)
      | Inr cases \<Rightarrow>
          (Inr (),
           emit (Switch gate True
                   (cases @ [(2, [FrameRotation2pi (Fin (1 / 8)) (channel_name qubit_el)])])) s))"

definition play_SW_gate_set ::
  "qexpr \<Rightarrow> qexpr list \<Rightarrow> channel \<Rightarrow> string \<Rightarrow> qua_prog \<Rightarrow> (exn + unit) \<times> qua_prog" where
  "play_SW_gate_set gate amp_matrix qubit_el baseline_op s =
     (case sequence_results (map (play_case amp_matrix qubit_el baseline_op) [0..<3]) of
        Inl e \<Rightarrow> (Inl e, s)
      | Inr cases \<Rightarrow> (Inr (), emit (Switch gate True cases) s))"

text \<open>
  \<^verbatim>\<open>
  def play_random_sq_gate(gate, amp_matrix, qubit_el: Channel, gate_dict: dict, baseline_op: str):
      if gate_dict[2]["gate"].name == "t":  # T gate involves frame rotation
          play_T_gate_set(gate, amp_matrix, qubit_el, baseline_op)
      elif gate_dict[2]["gate"].label == "sw":
          play_SW_gate_set(gate, amp_matrix, qubit_el, baseline_op)
      else:
          qubit_el.play(baseline_op, amp(*amp_matrix))
  \<close>
\<close>

definition play_random_sq_gate ::
  "qexpr \<Rightarrow> qexpr list \<Rightarrow> channel \<Rightarrow> gate_dict \<Rightarrow> string \<Rightarrow> qua_prog
     \<Rightarrow> (exn + unit) \<times> qua_prog" where
  "play_random_sq_gate gate amp_matrix qubit_el gate_dict baseline_op s =
     (case gate_item gate_dict 2 ''gate'' of
        Inl e \<Rightarrow> (Inl e, s)
      | Inr g \<Rightarrow>
         (case attribute_name g of
            Inl e \<Rightarrow> (Inl e, s)
          | Inr n \<Rightarrow>
             if n = ''t'' then play_T_gate_set gate amp_matrix qubit_el baseline_op s
             else (case attribute_label g of
                     Inl e \<Rightarrow> (Inl e, s)
                   | Inr l \<Rightarrow>
                      if l = ''sw'' then play_SW_gate_set gate amp_matrix qubit_el baseline_op s
                      else (case amp amp_matrix of
                              Inl e \<Rightarrow> (Inl e, s)
                            | Inr a \<Rightarrow>
                               (Inr (),
                                emit (ChannelPlay (channel_name qubit_el) baseline_op a) s)))))"

text \<open>
  \<^verbatim>\<open>
  def cz_gate(control, target, CZ_operations: dict):
      cz_el, cz_op = CZ_operations[(control, target)]
      play(cz_op, cz_el)
  \<close>
\<close>

definition cz_gate ::
  "int \<Rightarrow> int \<Rightarrow> ((int \<times> int) \<times> string \<times> string) list \<Rightarrow> qua_prog \<Rightarrow> (exn + unit) \<times> qua_prog" where
  "cz_gate control target CZ_operations s =
     (case map_of CZ_operations (control, target) of
        None \<Rightarrow> (Inl KeyError, s)
      | Some (cz_el, cz_op) \<Rightarrow> (Inr (), emit (Play cz_op cz_el None) s))"

text \<open>
  \<^verbatim>\<open>
  def measure_qubit_0(qubit):
      I = declare(fixed)
      Q = declare(fixed)
      measure("readout", "rr0", None,
              dual_demod.full("cos", "out1", "sin", "out2", I),
              dual_demod.full("minus_sin", "out1", "cos", "out2", Q))
      assign(qubit, I > 0)
      return Q
  \<close>
  \<open>measure_qubit_1\<close> is the same on the element \<open>"rr1"\<close>.
\<close>

definition measure_qubit_0 :: "qexpr \<Rightarrow> qua_prog \<Rightarrow> qexpr \<times> qua_prog" where
  "measure_qubit_0 qubit s =
     (let (I, s) = qua_declare Fixed s;
          (Q, s) = qua_declare Fixed s;
          s = emit (Measure ''readout'' ''rr0''
                [(''cos'', ''out1'', ''sin'', ''out2'', I),
                 (''minus_sin'', ''out1'', ''cos'', ''out2'', Q)]) s;
          s = emit (Assign qubit (QGt I (QLit (Fin 0)))) s
      in (Q, s))"

definition measure_qubit_1 :: "qexpr \<Rightarrow> qua_prog \<Rightarrow> qexpr \<times> qua_prog" where
  "measure_qubit_1 qubit s =
     (let (I, s) = qua_declare Fixed s;
          (Q, s) = qua_declare Fixed s;
          s = emit (Measure ''readout'' ''rr1''
                [(''cos'', ''out1'', ''sin'', ''out2'', I),
                 (''minus_sin'', ''out1'', ''cos'', ''out2'', Q)]) s;
          s = emit (Assign qubit (QGt I (QLit (Fin 0)))) s
      in (Q, s))"

subsection \<open>\<open>macros.py\<close> and \<open>Time_Rabi_Exp.py\<close>: fitting and plotting\<close>

text \<open>
  \<^verbatim>\<open>
  def fit_exponential_decay(cycle_depths, fidelities):
      cycle_depths = np.asarray(cycle_depths)
      fidelities = np.asarray(fidelities)
      mask = (fidelities > 0) & (fidelities < 1)
      print()
      masked_cycle_depths = cycle_depths[mask]
      masked_fidelities = fidelities[mask]
      log_fidelities = np.log(masked_fidelities)
      slope, intercept, _, _, _ = stats.linregress(masked_cycle_depths, log_fidelities)
      layer_fid_0 = np.clip(np.exp(slope), 0, 1)
      a_0 = np.clip(np.exp(intercept), 0, 1)
      try:
          (a, layer_fid), pcov = optimize.curve_fit(
              exponential_decay, masked_cycle_depths, masked_fidelities,
              p0=(a_0, layer_fid_0), bounds=((0, 0), (1, 1)), nan_policy="omit")
      except ValueError:
          return 0, 0, np.inf, np.inf
      a_std, layer_fid_std = np.sqrt(np.diag(pcov))
      return a, layer_fid, a_std, layer_fid_std
  \<close>

  SciPy's \<open>linregress\<close> and \<open>curve_fit\<close> are outside the repository: they are
  parameters, each returning its result or the exception it raises. \<open>linregress\<close>
  gives the slope and the intercept, \<open>curve_fit\<close> the two fitted parameters and the
  two-by-two covariance matrix. The arrays are one-dimensional; indexing an array
  with a mask of another length raises \<open>IndexError\<close>. A comparison with NaN is false.
  \<open>ValueError\<close> stands for the class and its subclasses, which \<open>except ValueError\<close>
  catches alike. The output of \<open>print\<close> is not modelled.
\<close>

definition xless :: "xfl \<Rightarrow> xfl \<Rightarrow> bool" where
  "xless x y =
     (case (x, y) of
        (Fin a, Fin b) \<Rightarrow> a < b
      | (Fin a, PInf) \<Rightarrow> True
      | (NInf, Fin b) \<Rightarrow> True
      | (NInf, PInf) \<Rightarrow> True
      | _ \<Rightarrow> False)"

fun xlog :: "xfl \<Rightarrow> xfl" where
  "xlog (Fin v) = (if 0 < v then Fin (ln v) else if v = 0 then NInf else NaN)"
| "xlog PInf = PInf"
| "xlog NInf = NaN"
| "xlog NaN = NaN"

fun xsqrt :: "xfl \<Rightarrow> xfl" where
  "xsqrt (Fin v) = (if 0 \<le> v then Fin (sqrt v) else NaN)"
| "xsqrt PInf = PInf"
| "xsqrt NInf = NaN"
| "xsqrt NaN = NaN"

fun xclip :: "xfl \<Rightarrow> real \<Rightarrow> real \<Rightarrow> xfl" where
  "xclip (Fin v) lo hi = Fin (min (max v lo) hi)"
| "xclip PInf lo hi = Fin hi"
| "xclip NInf lo hi = Fin (min lo hi)"
| "xclip NaN lo hi = NaN"

definition boolean_index :: "'a list \<Rightarrow> bool list \<Rightarrow> exn + 'a list" where
  "boolean_index xs flags =
     (if length xs = length flags then Inr (map fst (filter snd (zip xs flags)))
      else Inl IndexError)"

type_synonym linregress_fn = "xfl list \<Rightarrow> xfl list \<Rightarrow> exn + xfl \<times> xfl"

type_synonym covariance = "(xfl \<times> xfl) \<times> (xfl \<times> xfl)"

type_synonym curve_fit_fn =
  "(xfl list \<Rightarrow> xfl \<Rightarrow> xfl \<Rightarrow> xfl list) \<Rightarrow> xfl list \<Rightarrow> xfl list \<Rightarrow> xfl \<times> xfl
     \<Rightarrow> exn + (xfl \<times> xfl) \<times> covariance"

definition fit_exponential_decay ::
  "linregress_fn \<Rightarrow> curve_fit_fn \<Rightarrow> xfl list \<Rightarrow> xfl list \<Rightarrow> exn + xfl \<times> xfl \<times> xfl \<times> xfl" where
  "fit_exponential_decay linregress curve_fit cycle_depths fidelities =
     (let mask = map (\<lambda>f. xless (Fin 0) f \<and> xless f (Fin 1)) fidelities in
      case boolean_index cycle_depths mask of
        Inl e \<Rightarrow> Inl e
      | Inr masked_cycle_depths \<Rightarrow>
     (case boolean_index fidelities mask of
        Inl e \<Rightarrow> Inl e
      | Inr masked_fidelities \<Rightarrow>
         (let log_fidelities = map xlog masked_fidelities in
          case linregress masked_cycle_depths log_fidelities of
            Inl e \<Rightarrow> Inl e
          | Inr (slope, intercept) \<Rightarrow>
             (let layer_fid_0 = xclip (xexp slope) 0 1;
                  a_0 = xclip (xexp intercept) 0 1
              in case curve_fit exponential_decay masked_cycle_depths masked_fidelities
                        (a_0, layer_fid_0) of
                   Inl e \<Rightarrow> if e = ValueError then Inr (Fin 0, Fin 0, PInf, PInf) else Inl e
                 | Inr ((a, layer_fid), pcov) \<Rightarrow>
                     Inr (a, layer_fid, xsqrt (fst (fst pcov)), xsqrt (snd (snd pcov)))))))"

text \<open>
  The arrays that \<open>fit_exponential_decay\<close> passes to the two library functions, and
  the starting point that it passes to \<open>curve_fit\<close>.
\<close>

definition masked :: "xfl list \<Rightarrow> xfl list \<Rightarrow> xfl list" where
  "masked xs fidelities =
     map fst (filter snd (zip xs (map (\<lambda>f. xless (Fin 0) f \<and> xless f (Fin 1)) fidelities)))"

definition start_point :: "xfl \<times> xfl \<Rightarrow> xfl \<times> xfl" where
  "start_point fit = (xclip (xexp (snd fit)) 0 1, xclip (xexp (fst fit)) 0 1)"

text \<open>
  \<^verbatim>\<open>
  def fit_function(x_values, y_values, function, init_params):
      fitparams, conv = curve_fit(function, x_values, y_values, init_params)
      y_fit = function(x_values, *fitparams)
      return fitparams, y_fit
  \<close>
  Again \<open>curve_fit\<close> is a parameter, and so is the model \<open>function\<close>, which may raise.
\<close>

definition fit_function ::
  "(('x \<Rightarrow> 'p \<Rightarrow> exn + 'y) \<Rightarrow> 'x \<Rightarrow> 'y \<Rightarrow> 'p \<Rightarrow> exn + 'p \<times> 'c)
     \<Rightarrow> 'x \<Rightarrow> 'y \<Rightarrow> ('x \<Rightarrow> 'p \<Rightarrow> exn + 'y) \<Rightarrow> 'p \<Rightarrow> exn + 'p \<times> 'y" where
  "fit_function curve_fit x_values y_values function init_params =
     (case curve_fit function x_values y_values init_params of
        Inl e \<Rightarrow> Inl e
      | Inr (fitparams, conv) \<Rightarrow>
         (case function x_values fitparams of
            Inl e \<Rightarrow> Inl e
          | Inr y_fit \<Rightarrow> Inr (fitparams, y_fit)))"

text \<open>
  \<^verbatim>\<open>
  def create_subplot(data, subplot_number, title, depths, seqs):
      print(title)
      print("data: %s" % data)
      print(subplot_number)
      plt.subplot(subplot_number)
      plt.pcolor(depths, range(seqs), np.abs(data))
      ax = plt.gca()
      ax.set_title(title)
      if subplot_number > 244:
          ax.set_xlabel("Circuit depth")
      ax.set_ylabel("Sequences")
      ax.set_xticks(depths)
      ax.set_yticks(np.arange(1, seqs + 1))
      plt.colorbar()
  \<close>
  The function only calls \<open>print\<close> and Matplotlib; the model lists the calls it makes
  and takes them to succeed. \<open>data\<close> and \<open>depths\<close> are arrays, \<open>title\<close> is a string
  and \<open>subplot_number\<close> and \<open>seqs\<close> are integers.
\<close>

definition create_subplot ::
  "xfl list list \<Rightarrow> int \<Rightarrow> string \<Rightarrow> xfl list \<Rightarrow> int \<Rightarrow> string list \<Rightarrow> string list" where
  "create_subplot data subplot_number title depths seqs calls =
     calls
     @ [''print'', ''print'', ''print'', ''plt.subplot'', ''plt.pcolor'', ''plt.gca'', ''ax.set_title'']
     @ (if 244 < subplot_number then [''ax.set_xlabel''] else [])
     @ [''ax.set_ylabel'', ''ax.set_xticks'', ''ax.set_yticks'', ''plt.colorbar'']"

text \<open>
  \<^verbatim>\<open>
  lambda x, A, drive_period, phi: (A*np.cos(2*np.pi*x/drive_period - phi))
  \<close>
  The model function that \<open>Time_Rabi_Exp.py\<close> passes to \<open>fit_function\<close> (twice, at
  lines 71 and 75). \<open>x\<close> is an array, so the arithmetic is NumPy's and does not raise.
  The cosine of an infinity or of a NaN is a NaN.
\<close>

fun xcos :: "xfl \<Rightarrow> xfl" where
  "xcos (Fin v) = Fin (cos v)"
| "xcos PInf = NaN"
| "xcos NInf = NaN"
| "xcos NaN = NaN"

definition cosine_model :: "xfl list \<Rightarrow> xfl \<Rightarrow> xfl \<Rightarrow> xfl \<Rightarrow> xfl list" where
  "cosine_model x A drive_period phi =
     map (\<lambda>t. xmul A (xcos (xsub (xdiv (xmul (Fin (2 * pi)) t) drive_period) phi))) x"

subsection \<open>The calls of the repository's functions\<close>

text \<open>
  For claim C1, which speaks of every function defined in the repository: a \<open>call\<close>
  is one of these functions with its arguments, and \<open>raises\<close> is the exception that
  the call raises, if any, in a QUA program under construction and the two stores of
  arrays. A function whose model has no exception to raise (\<open>binary\<close>,
  \<open>exponential_decay\<close>, \<open>measure_qubit_0\<close>, \<open>measure_qubit_1\<close>, \<open>create_subplot\<close> and
  the cosine model) contains no \<open>raise\<close> statement and calls NumPy or the vendor
  only; its call \<open>returns\<close> its result. \<open>fit_function\<close> is taken at arrays of floats.
\<close>

definition returns :: "'a \<Rightarrow> exn + 'a" where
  "returns v = Inr v"

definition raised_by :: "exn + 'a \<Rightarrow> exn option" where
  "raised_by r = (case r of Inl e \<Rightarrow> Some e | Inr v \<Rightarrow> None)"

type_synonym model_fn = "xfl list \<Rightarrow> xfl list \<Rightarrow> exn + xfl list"

type_synonym fit_fn =
  "model_fn \<Rightarrow> xfl list \<Rightarrow> xfl list \<Rightarrow> xfl list \<Rightarrow> exn + xfl list \<times> xfl list list"

datatype call =
    Gauss xfl xfl xfl int
  | IQImbalance real real
  | MeasureQubit0 qexpr
  | MeasureQubit1 qexpr
  | FitFunction fit_fn "xfl list" "xfl list" model_fn "xfl list"
  | CosineModel "xfl list" xfl xfl xfl
  | AssignAmplitudeMatrix qexpr "qexpr list" gate_dict
  | QuaDeclaration int "channel list"
  | PlayTGateSet qexpr "qexpr list" channel string
  | PlaySWGateSet qexpr "qexpr list" channel string
  | PlayRandomSqGate qexpr "qexpr list" channel gate_dict string
  | ResetQubit string string string "string \<rightharpoonup> arg"
  | ActiveReset arg string string arg arg
  | CzGate int int "((int \<times> int) \<times> string \<times> string) list"
  | Binary int int
  | CrossEntropy nat nat real
  | CreateSubplot "xfl list list" int string "xfl list" int
  | ExponentialDecay "xfl list" xfl xfl
  | FitExponentialDecay linregress_fn curve_fit_fn "xfl list" "xfl list"

fun raises :: "call \<Rightarrow> qua_prog \<Rightarrow> xstore \<Rightarrow> store \<Rightarrow> exn option" where
  "raises (Gauss amplitude mu sigma len) s xs st =
     raised_by (fst (gauss amplitude mu sigma len xs))"
| "raises (IQImbalance g phi) s xs st = raised_by (fst (IQ_imbalance_call g phi st))"
| "raises (MeasureQubit0 qubit) s xs st = raised_by (returns (measure_qubit_0 qubit s))"
| "raises (MeasureQubit1 qubit) s xs st = raised_by (returns (measure_qubit_1 qubit s))"
| "raises (FitFunction curve_fit x_values y_values function init_params) s xs st =
     raised_by (fit_function curve_fit x_values y_values function init_params)"
| "raises (CosineModel x A drive_period phi) s xs st =
     raised_by (returns (cosine_model x A drive_period phi))"
| "raises (AssignAmplitudeMatrix gate amp_matrix gate_dict) s xs st =
     raised_by (fst (assign_amplitude_matrix gate amp_matrix gate_dict s))"
| "raises (QuaDeclaration n_qubits readout_elements) s xs st =
     raised_by (fst (qua_declaration n_qubits readout_elements s))"
| "raises (PlayTGateSet gate amp_matrix qubit_el baseline_op) s xs st =
     raised_by (fst (play_T_gate_set gate amp_matrix qubit_el baseline_op s))"
| "raises (PlaySWGateSet gate amp_matrix qubit_el baseline_op) s xs st =
     raised_by (fst (play_SW_gate_set gate amp_matrix qubit_el baseline_op s))"
| "raises (PlayRandomSqGate gate amp_matrix qubit_el gate_dict baseline_op) s xs st =
     raised_by (fst (play_random_sq_gate gate amp_matrix qubit_el gate_dict baseline_op s))"
| "raises (ResetQubit method qubit resonator kwargs) s xs st =
     raised_by (fst (reset_qubit method qubit resonator kwargs s))"
| "raises (ActiveReset threshold qubit resonator max_tries Ig) s xs st =
     raised_by (fst (active_reset threshold qubit resonator max_tries Ig s))"
| "raises (CzGate control target CZ_operations) s xs st =
     raised_by (fst (cz_gate control target CZ_operations s))"
| "raises (Binary n len) s xs st = raised_by (returns (binary n len))"
| "raises (CrossEntropy p q epsilon) s xs st = raised_by (fst (cross_entropy p q epsilon st))"
| "raises (CreateSubplot data subplot_number title depths seqs) s xs st =
     raised_by (returns (create_subplot data subplot_number title depths seqs []))"
| "raises (ExponentialDecay cycle_depths a layer_fid) s xs st =
     raised_by (returns (exponential_decay cycle_depths a layer_fid))"
| "raises (FitExponentialDecay linregress curve_fit cycle_depths fidelities) s xs st =
     raised_by (fit_exponential_decay linregress curve_fit cycle_depths fidelities)"

text \<open>
  \<open>validation_raise c msg\<close>: the call \<open>c\<close> is a call of \<open>reset_qubit\<close> or
  \<open>active_reset\<close> whose argument check fails, and \<open>msg\<close> is a message of that function.
  \<open>library_raise c e\<close>: \<open>c\<close> is a call of one of the two fitting functions, and a
  library function that it calls, with the arguments that it passes, raises \<open>e\<close>.
\<close>

definition validation_raise :: "call \<Rightarrow> string \<Rightarrow> bool" where
  "validation_raise c msg =
     (case c of
        ResetQubit method qubit resonator kwargs \<Rightarrow>
          msg \<in> {cooldown_time_message, threshold_message, max_tries_message}
          \<and> validation_fails method kwargs
      | ActiveReset threshold qubit resonator max_tries Ig \<Rightarrow>
          msg = max_count_message \<and> is_number max_tries
          \<and> (arg_less max_tries 1 \<or> \<not> arg_integer_valued max_tries)
      | _ \<Rightarrow> False)"

definition library_raise :: "call \<Rightarrow> exn \<Rightarrow> bool" where
  "library_raise c e =
     (case c of
        FitExponentialDecay linregress curve_fit cycle_depths fidelities \<Rightarrow>
          (case linregress (masked cycle_depths fidelities)
                  (map xlog (masked fidelities fidelities)) of
             Inl e' \<Rightarrow> e' = e
           | Inr fit \<Rightarrow>
               curve_fit exponential_decay (masked cycle_depths fidelities)
                 (masked fidelities fidelities) (start_point fit) = Inl e)
      | FitFunction curve_fit x_values y_values function init_params \<Rightarrow>
          (case curve_fit function x_values y_values init_params of
             Inl e' \<Rightarrow> e' = e
           | Inr (fitparams, conv) \<Rightarrow> function x_values fitparams = Inl e)
      | _ \<Rightarrow> False)"

subsection \<open>Python values\<close>

text \<open>
  The values that occur in the configuration dictionaries. \<open>PNonFinite\<close> is a float
  that is an infinity or a NaN. A dictionary display is the list of its items in
  source order.
\<close>

datatype pyval =
    PNone
  | PBool bool
  | PInt int
  | PFloat real
  | PNonFinite
  | PStr string
  | PTuple "pyval list"
  | PList "pyval list"
  | PDict "(pyval \<times> pyval) list"

definition py_of_fl :: "fl \<Rightarrow> pyval" where
  "py_of_fl x = (case x of None \<Rightarrow> PNonFinite | Some v \<Rightarrow> PFloat v)"

subsection \<open>\<open>configuration_cavity_locking_ETHZ_OPX1.py\<close>: \<open>config\<close>\<close>

text \<open>
  The module-level variables that \<open>config\<close> uses are the \<open>let\<close> bindings, in source
  order. \<open>u.kHz\<close> and \<open>u.us\<close> are unit factors of the vendor's \<open>qualang_tools.units\<close>,
  which is not part of the repository: they are the parameters \<open>kHz\<close> and \<open>us\<close>.
\<close>

definition config_cavity :: "real \<Rightarrow> real \<Rightarrow> pyval" where
  "config_cavity kHz us =
     (let phase_modulation_IF = 250 * kHz;
          phase_mod_amplitude = 48 / 100;
          phase_mod_len = 100 * us;
          const_amplitude = 1 / 10;
          const_len = 100;
          offset_amplitude = 25 / 100;
          offset_len = 16;
          setpoint_filter_cavity_1 = 0;
          readout_len = phase_mod_len;
          time_of_flight = 192
      in PDict [
        (PStr ''version'', PInt 1),
        (PStr ''controllers'', PDict [
          (PStr ''con1'', PDict [
            (PStr ''analog_outputs'', PDict [
              (PInt 6, PDict [
                (PStr ''offset'', PFloat setpoint_filter_cavity_1)]),
              (PInt 8, PDict [
                (PStr ''offset'', PFloat 0)])]),
            (PStr ''digital_outputs'', PDict []),
            (PStr ''analog_inputs'', PDict [
              (PInt 2, PDict [
                (PStr ''offset'', PInt 0)])])])]),
        (PStr ''elements'', PDict [
          (PStr ''phase_modulator'', PDict [
            (PStr ''singleInput'', PDict [
              (PStr ''port'', PTuple [PStr ''con1'', PInt 8])]),
            (PStr ''intermediate_frequency'', PFloat phase_modulation_IF),
            (PStr ''operations'', PDict [
              (PStr ''cw'', PStr ''phase_mod_pulse'')])]),
          (PStr ''filter_cavity_1'', PDict [
            (PStr ''singleInput'', PDict [
              (PStr ''port'', PTuple [PStr ''con1'', PInt 6])]),
            (PStr ''operations'', PDict [
              (PStr ''offset'', PStr ''offset_pulse'')]),
            (PStr ''sticky'', PDict [
              (PStr ''analog'', PBool True),
              (PStr ''duration'', PInt 60)])]),
          (PStr ''detector_DC'', PDict [
            (PStr ''singleInput'', PDict [
              (PStr ''port'', PTuple [PStr ''con1'', PInt 6])]),
            (PStr ''operations'', PDict [
              (PStr ''readout'', PStr ''DC_readout_pulse'')]),
            (PStr ''outputs'', PDict [
              (PStr ''out1'', PTuple [PStr ''con1'', PInt 2])]),
            (PStr ''time_of_flight'', PInt time_of_flight),
            (PStr ''smearing'', PInt 0)]),
          (PStr ''detector_AC'', PDict [
            (PStr ''singleInput'', PDict [
              (PStr ''port'', PTuple [PStr ''con1'', PInt 6])]),
            (PStr ''intermediate_frequency'', PFloat phase_modulation_IF),
            (PStr ''operations'', PDict [
              (PStr ''readout'', PStr ''AC_readout_pulse'')]),
            (PStr ''outputs'', PDict [
              (PStr ''out1'', PTuple [PStr ''con1'', PInt 2])]),
            (PStr ''time_of_flight'', PInt time_of_flight),
            (PStr ''smearing'', PInt 0)])]),
        (PStr ''pulses'', PDict [
          (PStr ''offset_pulse'', PDict [
            (PStr ''operation'', PStr ''control''),
            (PStr ''length'', PInt offset_len),
            (PStr ''waveforms'', PDict [
              (PStr ''single'', PStr ''offset_wf'')])]),
          (PStr ''phase_mod_pulse'', PDict [
            (PStr ''operation'', PStr ''control''),
            (PStr ''length'', PFloat phase_mod_len),
            (PStr ''waveforms'', PDict [
              (PStr ''single'', PStr ''phase_mod_wf'')])]),
          (PStr ''cw_pulse'', PDict [
            (PStr ''operation'', PStr ''control''),
            (PStr ''length'', PInt const_len),
            (PStr ''waveforms'', PDict [
              (PStr ''single'', PStr ''const_wf'')])]),
          (PStr ''DC_readout_pulse'', PDict [
            (PStr ''operation'', PStr ''measurement''),
            (PStr ''length'', PFloat readout_len),
            (PStr ''waveforms'', PDict [
              (PStr ''single'', PStr ''zero_wf'')]),
            (PStr ''integration_weights'', PDict [
              (PStr ''constant'', PStr ''constant_weights'')]),
            (PStr ''digital_marker'', PStr ''ON'')]),
          (PStr ''AC_readout_pulse'', PDict [
            (PStr ''operation'', PStr ''measurement''),
            (PStr ''length'', PFloat readout_len),
            (PStr ''waveforms'', PDict [
              (PStr ''single'', PStr ''zero_wf'')]),
            (PStr ''integration_weights'', PDict [
              (PStr ''constant'', PStr ''constant_weights'')]),
            (PStr ''digital_marker'', PStr ''ON'')])]),
        (PStr ''waveforms'', PDict [
          (PStr ''phase_mod_wf'', PDict [
            (PStr ''type'', PStr ''constant''),
            (PStr ''sample'', PFloat phase_mod_amplitude)]),
          (PStr ''const_wf'', PDict [
            (PStr ''type'', PStr ''constant''),
            (PStr ''sample'', PFloat const_amplitude)]),
          (PStr ''offset_wf'', PDict [
            (PStr ''type'', PStr ''constant''),
            (PStr ''sample'', PFloat offset_amplitude)]),
          (PStr ''zero_wf'', PDict [
            (PStr ''type'', PStr ''constant''),
            (PStr ''sample'', PFloat 0)])]),
        (PStr ''digital_waveforms'', PDict [
          (PStr ''ON'', PDict [
            (PStr ''samples'', PList [PTuple [PInt 1, PInt 0]])]),
          (PStr ''OFF'', PDict [
            (PStr ''samples'', PList [PTuple [PInt 0, PInt 0]])])]),
        (PStr ''integration_weights'', PDict [
          (PStr ''constant_weights'', PDict [
            (PStr ''cosine'', PList [PTuple [PFloat 1, PFloat readout_len]]),
            (PStr ''sine'', PList [PTuple [PFloat 0, PFloat readout_len]])])])])"

subsection \<open>\<open>two_qubit_rb_config.py\<close>: \<open>config\<close>\<close>

text \<open>
  What the module takes from libraries outside the repository: the unit factors
  \<open>u.MHz\<close> and \<open>u.GHz\<close> of \<open>qualang_tools.units\<close>, the window function
  \<open>scipy.signal.windows.gaussian\<close>, and \<open>drag_gaussian_pulse_waveforms\<close> of
  \<open>qualang_tools\<close>, which returns the pair of an in-phase and a derivative waveform.
\<close>

record library =
  MHz :: real
  GHz :: real
  gaussian :: "int \<Rightarrow> real \<Rightarrow> real list"
  drag_gaussian_pulse_waveforms ::
    "real \<Rightarrow> int \<Rightarrow> real \<Rightarrow> real \<Rightarrow> real \<Rightarrow> real \<Rightarrow> real list \<times> real list"

text \<open>
  The module-level variables of the section \<open>VARIABLES\<close>, one definition each, in
  source order. An assignment \<open>a, b = np.array(drag_gaussian_pulse_waveforms(...))\<close>
  binds \<open>a\<close> and \<open>b\<close> to the two components. (\<open>qe0_T1\<close> and the names of elements
  and operations at the top of the section are not used by \<open>config\<close>.)
\<close>

definition qe0_IF :: "library \<Rightarrow> real" where
  "qe0_IF lib = 50 * MHz lib"

definition qe0_LO :: "library \<Rightarrow> real" where
  "qe0_LO lib = 7 * GHz lib"

definition mixer_qe0_g :: real where
  "mixer_qe0_g = 0"

definition mixer_qe0_phi :: real where
  "mixer_qe0_phi = 0"

definition qe1_IF :: "library \<Rightarrow> real" where
  "qe1_IF lib = 50 * MHz lib"

definition qe1_LO :: "library \<Rightarrow> real" where
  "qe1_LO lib = 7 * GHz lib"

definition mixer_qe1_g :: real where
  "mixer_qe1_g = 0"

definition mixer_qe1_phi :: real where
  "mixer_qe1_phi = 0"

definition saturation_len :: int where
  "saturation_len = 1000"

definition saturation_amp :: real where
  "saturation_amp = 1 / 10"

definition const_len :: int where
  "const_len = 100"

definition const_amp :: real where
  "const_amp = 1 / 10"

definition square_pi_len :: int where
  "square_pi_len = 100"

definition square_pi_amp :: real where
  "square_pi_amp = 1 / 10"

definition drag_coef :: real where
  "drag_coef = 0"

definition anharmonicity :: "library \<Rightarrow> real" where
  "anharmonicity lib = - 200 * MHz lib"

definition AC_stark_detuning :: "library \<Rightarrow> real" where
  "AC_stark_detuning lib = 0 * MHz lib"

definition gauss_len :: int where
  "gauss_len = 200"

definition gauss_sigma :: real where
  "gauss_sigma = real_of_int gauss_len / 5"

definition gauss_amp :: real where
  "gauss_amp = 25 / 100"

definition gauss_wf :: "library \<Rightarrow> real list" where
  "gauss_wf lib = map (\<lambda>x. gauss_amp * x) (gaussian lib gauss_len gauss_sigma)"

definition displace_len :: int where
  "displace_len = 40"

definition displace_sigma :: real where
  "displace_sigma = real_of_int displace_len / 5"

definition displace_amp :: real where
  "displace_amp = 35 / 100"

definition displace_wf :: "library \<Rightarrow> real list" where
  "displace_wf lib = map (\<lambda>x. displace_amp * x) (gaussian lib displace_len displace_sigma)"

definition x180_len :: int where
  "x180_len = 40"

definition x180_sigma :: real where
  "x180_sigma = real_of_int x180_len / 5"

definition x180_amp :: real where
  "x180_amp = 35 / 100"

definition x180_wf :: "library \<Rightarrow> real list" where
  "x180_wf lib = fst
     (drag_gaussian_pulse_waveforms lib x180_amp x180_len x180_sigma drag_coef
       (anharmonicity lib) (AC_stark_detuning lib))"

definition x180_der_wf :: "library \<Rightarrow> real list" where
  "x180_der_wf lib = snd
     (drag_gaussian_pulse_waveforms lib x180_amp x180_len x180_sigma drag_coef
       (anharmonicity lib) (AC_stark_detuning lib))"

definition x180_I_wf :: "library \<Rightarrow> real list" where
  "x180_I_wf lib = x180_wf lib"

definition x180_Q_wf :: "library \<Rightarrow> real list" where
  "x180_Q_wf lib = x180_der_wf lib"

definition x90_len :: int where
  "x90_len = x180_len"

definition x90_sigma :: real where
  "x90_sigma = real_of_int x90_len / 5"

definition x90_amp :: real where
  "x90_amp = x180_amp / 2"

definition x90_wf :: "library \<Rightarrow> real list" where
  "x90_wf lib = fst
     (drag_gaussian_pulse_waveforms lib x90_amp x90_len x90_sigma drag_coef
       (anharmonicity lib) (AC_stark_detuning lib))"

definition x90_der_wf :: "library \<Rightarrow> real list" where
  "x90_der_wf lib = snd
     (drag_gaussian_pulse_waveforms lib x90_amp x90_len x90_sigma drag_coef
       (anharmonicity lib) (AC_stark_detuning lib))"

definition x90_I_wf :: "library \<Rightarrow> real list" where
  "x90_I_wf lib = x90_wf lib"

definition x90_Q_wf :: "library \<Rightarrow> real list" where
  "x90_Q_wf lib = x90_der_wf lib"

definition minus_x90_len :: int where
  "minus_x90_len = x180_len"

definition minus_x90_sigma :: real where
  "minus_x90_sigma = real_of_int minus_x90_len / 5"

definition minus_x90_amp :: real where
  "minus_x90_amp = - x90_amp"

definition minus_x90_wf :: "library \<Rightarrow> real list" where
  "minus_x90_wf lib = fst
     (drag_gaussian_pulse_waveforms lib minus_x90_amp minus_x90_len minus_x90_sigma drag_coef
       (anharmonicity lib) (AC_stark_detuning lib))"

definition minus_x90_der_wf :: "library \<Rightarrow> real list" where
  "minus_x90_der_wf lib = snd
     (drag_gaussian_pulse_waveforms lib minus_x90_amp minus_x90_len minus_x90_sigma drag_coef
       (anharmonicity lib) (AC_stark_detuning lib))"

definition minus_x90_I_wf :: "library \<Rightarrow> real list" where
  "minus_x90_I_wf lib = minus_x90_wf lib"

definition minus_x90_Q_wf :: "library \<Rightarrow> real list" where
  "minus_x90_Q_wf lib = minus_x90_der_wf lib"

definition y180_len :: int where
  "y180_len = x180_len"

definition y180_sigma :: real where
  "y180_sigma = real_of_int y180_len / 5"

definition y180_amp :: real where
  "y180_amp = x180_amp"

definition y180_wf :: "library \<Rightarrow> real list" where
  "y180_wf lib = fst
     (drag_gaussian_pulse_waveforms lib y180_amp y180_len y180_sigma drag_coef
       (anharmonicity lib) (AC_stark_detuning lib))"

definition y180_der_wf :: "library \<Rightarrow> real list" where
  "y180_der_wf lib = snd
     (drag_gaussian_pulse_waveforms lib y180_amp y180_len y180_sigma drag_coef
       (anharmonicity lib) (AC_stark_detuning lib))"

definition y180_I_wf :: "library \<Rightarrow> real list" where
  "y180_I_wf lib = map (\<lambda>x. (- 1) * x) (y180_der_wf lib)"

definition y180_Q_wf :: "library \<Rightarrow> real list" where
  "y180_Q_wf lib = y180_wf lib"

definition y90_len :: int where
  "y90_len = x180_len"

definition y90_sigma :: real where
  "y90_sigma = real_of_int y90_len / 5"

definition y90_amp :: real where
  "y90_amp = y180_amp / 2"

definition y90_wf :: "library \<Rightarrow> real list" where
  "y90_wf lib = fst
     (drag_gaussian_pulse_waveforms lib y90_amp y90_len y90_sigma drag_coef
       (anharmonicity lib) (AC_stark_detuning lib))"

definition y90_der_wf :: "library \<Rightarrow> real list" where
  "y90_der_wf lib = snd
     (drag_gaussian_pulse_waveforms lib y90_amp y90_len y90_sigma drag_coef
       (anharmonicity lib) (AC_stark_detuning lib))"

definition y90_I_wf :: "library \<Rightarrow> real list" where
  "y90_I_wf lib = map (\<lambda>x. (- 1) * x) (y90_der_wf lib)"

definition y90_Q_wf :: "library \<Rightarrow> real list" where
  "y90_Q_wf lib = y90_wf lib"

definition minus_y90_len :: int where
  "minus_y90_len = y180_len"

definition minus_y90_sigma :: real where
  "minus_y90_sigma = real_of_int minus_y90_len / 5"

definition minus_y90_amp :: real where
  "minus_y90_amp = - y90_amp"

definition minus_y90_wf :: "library \<Rightarrow> real list" where
  "minus_y90_wf lib = fst
     (drag_gaussian_pulse_waveforms lib minus_y90_amp minus_y90_len minus_y90_sigma drag_coef
       (anharmonicity lib) (AC_stark_detuning lib))"

definition minus_y90_der_wf :: "library \<Rightarrow> real list" where
  "minus_y90_der_wf lib = snd
     (drag_gaussian_pulse_waveforms lib minus_y90_amp minus_y90_len minus_y90_sigma drag_coef
       (anharmonicity lib) (AC_stark_detuning lib))"

definition minus_y90_I_wf :: "library \<Rightarrow> real list" where
  "minus_y90_I_wf lib = map (\<lambda>x. (- 1) * x) (minus_y90_der_wf lib)"

definition minus_y90_Q_wf :: "library \<Rightarrow> real list" where
  "minus_y90_Q_wf lib = minus_y90_wf lib"

definition rr0_IF :: "library \<Rightarrow> real" where
  "rr0_IF lib = 60 * MHz lib"

definition rr0_LO :: "library \<Rightarrow> real" where
  "rr0_LO lib = (55 / 10) * GHz lib"

definition mixer_rr0_g :: real where
  "mixer_rr0_g = 0"

definition mixer_rr0_phi :: real where
  "mixer_rr0_phi = 0"

definition rr1_IF :: "library \<Rightarrow> real" where
  "rr1_IF lib = 60 * MHz lib"

definition rr1_LO :: "library \<Rightarrow> real" where
  "rr1_LO lib = (55 / 10) * GHz lib"

definition mixer_rr1_g :: real where
  "mixer_rr1_g = 0"

definition mixer_rr1_phi :: real where
  "mixer_rr1_phi = 0"

definition time_of_flight :: int where
  "time_of_flight = 180"

definition short_readout_len :: int where
  "short_readout_len = 500"

definition short_readout_amp :: real where
  "short_readout_amp = 4 / 10"

definition readout_len :: int where
  "readout_len = 500"

definition readout_amp :: real where
  "readout_amp = 1 / 10"

definition long_readout_len :: int where
  "long_readout_len = 50000"

definition long_readout_amp :: real where
  "long_readout_amp = 1 / 10"

definition rotation_angle :: real where
  "rotation_angle = (0 / 180) * pi"

definition ge_threshold :: real where
  "ge_threshold = 0"

definition const_flux_len :: int where
  "const_flux_len = 612"

definition const_flux_amp :: real where
  "const_flux_amp = 5 / 100"

text \<open>
  The dictionary \<open>config\<close>, one definition for the value of each top-level key and
  \<open>config_rb\<close> for the whole.
\<close>

definition config_controllers :: pyval where
  "config_controllers =
    PDict [
      (PStr ''con1'', PDict [
        (PStr ''analog_outputs'', PDict [
          (PInt 1, PDict [
            (PStr ''offset'', PFloat 0)]),
          (PInt 2, PDict [
            (PStr ''offset'', PFloat 0)]),
          (PInt 3, PDict [
            (PStr ''offset'', PFloat 0)]),
          (PInt 4, PDict [
            (PStr ''offset'', PFloat 0)]),
          (PInt 5, PDict [
            (PStr ''offset'', PFloat 0)]),
          (PInt 6, PDict [
            (PStr ''offset'', PFloat 0)]),
          (PInt 7, PDict [
            (PStr ''offset'', PFloat 0)])]),
        (PStr ''digital_outputs'', PDict []),
        (PStr ''analog_inputs'', PDict [
          (PInt 1, PDict [
            (PStr ''offset'', PFloat 0),
            (PStr ''gain_db'', PInt 0)]),
          (PInt 2, PDict [
            (PStr ''offset'', PFloat 0),
            (PStr ''gain_db'', PInt 0)])])])]"

definition config_elements :: "library \<Rightarrow> pyval" where
  "config_elements lib =
    PDict [
      (PStr ''qe0'', PDict [
        (PStr ''mixInputs'', PDict [
          (PStr ''I'', PTuple [PStr ''con1'', PInt 1]),
          (PStr ''Q'', PTuple [PStr ''con1'', PInt 2]),
          (PStr ''lo_frequency'', PFloat (qe0_LO lib)),
          (PStr ''mixer'', PStr ''mixer_qe0'')]),
        (PStr ''intermediate_frequency'', PFloat (qe0_IF lib)),
        (PStr ''operations'', PDict [
          (PStr ''cw'', PStr ''const_pulse''),
          (PStr ''saturation'', PStr ''saturation_pulse''),
          (PStr ''gauss'', PStr ''gaussian_pulse''),
          (PStr ''pi'', PStr ''x180_pulse''),
          (PStr ''pi_half'', PStr ''x90_pulse''),
          (PStr ''x90'', PStr ''x90_pulse''),
          (PStr ''x180'', PStr ''x180_pulse''),
          (PStr ''-x90'', PStr ''-x90_pulse''),
          (PStr ''y90'', PStr ''y90_pulse''),
          (PStr ''y180'', PStr ''y180_pulse''),
          (PStr ''-y90'', PStr ''-y90_pulse'')])]),
      (PStr ''qe1'', PDict [
        (PStr ''mixInputs'', PDict [
          (PStr ''I'', PTuple [PStr ''con1'', PInt 5]),
          (PStr ''Q'', PTuple [PStr ''con1'', PInt 6]),
          (PStr ''lo_frequency'', PFloat (qe1_LO lib)),
          (PStr ''mixer'', PStr ''mixer_qe1'')]),
        (PStr ''intermediate_frequency'', PFloat (qe1_IF lib)),
        (PStr ''operations'', PDict [
          (PStr ''cw'', PStr ''const_pulse''),
          (PStr ''saturation'', PStr ''saturation_pulse''),
          (PStr ''gauss'', PStr ''gaussian_pulse''),
          (PStr ''pi'', PStr ''x180_pulse''),
          (PStr ''pi_half'', PStr ''x90_pulse''),
          (PStr ''x90'', PStr ''x90_pulse''),
          (PStr ''x180'', PStr ''x180_pulse''),
          (PStr ''-x90'', PStr ''-x90_pulse''),
          (PStr ''y90'', PStr ''y90_pulse''),
          (PStr ''y180'', PStr ''y180_pulse''),
          (PStr ''-y90'', PStr ''-y90_pulse'')])]),
      (PStr ''crtqe1cqe0'', PDict [
        (PStr ''mixInputs'', PDict [
          (PStr ''I'', PTuple [PStr ''con1'', PInt 1]),
          (PStr ''Q'', PTuple [PStr ''con1'', PInt 2]),
          (PStr ''lo_frequency'', PFloat (qe0_LO lib)),
          (PStr ''mixer'', PStr ''mixer_qe1'')]),
        (PStr ''intermediate_frequency'', PFloat (qe1_IF lib)),
        (PStr ''operations'', PDict [
          (PStr ''cw'', PStr ''const_pulse'')])]),
      (PStr ''rr0'', PDict [
        (PStr ''mixInputs'', PDict [
          (PStr ''I'', PTuple [PStr ''con1'', PInt 3]),
          (PStr ''Q'', PTuple [PStr ''con1'', PInt 4]),
          (PStr ''lo_frequency'', PFloat (rr0_LO lib)),
          (PStr ''mixer'', PStr ''mixer_rr0'')]),
        (PStr ''intermediate_frequency'', PFloat (rr0_IF lib)),
        (PStr ''operations'', PDict [
          (PStr ''cw'', PStr ''const_pulse''),
          (PStr ''displace'', PStr ''displace_pulse''),
          (PStr ''short_readout'', PStr ''short_readout_pulse''),
          (PStr ''readout'', PStr ''readout_pulse''),
          (PStr ''long_readout'', PStr ''long_readout_pulse'')]),
        (PStr ''outputs'', PDict [
          (PStr ''out1'', PTuple [PStr ''con1'', PInt 1]),
          (PStr ''out2'', PTuple [PStr ''con1'', PInt 2])]),
        (PStr ''time_of_flight'', PInt time_of_flight),
        (PStr ''smearing'', PInt 0)]),
      (PStr ''rr1'', PDict [
        (PStr ''mixInputs'', PDict [
          (PStr ''I'', PTuple [PStr ''con1'', PInt 3]),
          (PStr ''Q'', PTuple [PStr ''con1'', PInt 4]),
          (PStr ''lo_frequency'', PFloat (rr1_LO lib)),
          (PStr ''mixer'', PStr ''mixer_rr1'')]),
        (PStr ''intermediate_frequency'', PFloat (rr1_IF lib)),
        (PStr ''operations'', PDict [
          (PStr ''cw'', PStr ''const_pulse''),
          (PStr ''displace'', PStr ''displace_pulse''),
          (PStr ''short_readout'', PStr ''short_readout_pulse''),
          (PStr ''readout'', PStr ''readout_pulse''),
          (PStr ''long_readout'', PStr ''long_readout_pulse'')]),
        (PStr ''outputs'', PDict [
          (PStr ''out1'', PTuple [PStr ''con1'', PInt 1]),
          (PStr ''out2'', PTuple [PStr ''con1'', PInt 2])]),
        (PStr ''time_of_flight'', PInt time_of_flight),
        (PStr ''smearing'', PInt 0)]),
      (PStr ''qubit0_flux_qe'', PDict [
        (PStr ''singleInput'', PDict [
          (PStr ''port'', PTuple [PStr ''con1'', PInt 7])]),
        (PStr ''operations'', PDict [
          (PStr ''iswap_pulse'', PStr ''const_flux_pulse'')])])]"

definition config_pulses :: pyval where
  "config_pulses =
    PDict [
      (PStr ''const_flux_pulse'', PDict [
        (PStr ''operation'', PStr ''control''),
        (PStr ''length'', PInt const_flux_len),
        (PStr ''waveforms'', PDict [
          (PStr ''single'', PStr ''const_flux_wf'')])]),
      (PStr ''const_pulse'', PDict [
        (PStr ''operation'', PStr ''control''),
        (PStr ''length'', PInt const_len),
        (PStr ''waveforms'', PDict [
          (PStr ''I'', PStr ''const_wf''),
          (PStr ''Q'', PStr ''zero_wf'')])]),
      (PStr ''square_pi_pulse'', PDict [
        (PStr ''operation'', PStr ''control''),
        (PStr ''length'', PInt square_pi_len),
        (PStr ''waveforms'', PDict [
          (PStr ''I'', PStr ''square_pi_wf''),
          (PStr ''Q'', PStr ''zero_wf'')])]),
      (PStr ''saturation_pulse'', PDict [
        (PStr ''operation'', PStr ''control''),
        (PStr ''length'', PInt saturation_len),
        (PStr ''waveforms'', PDict [
          (PStr ''I'', PStr ''saturation_drive_wf''),
          (PStr ''Q'', PStr ''zero_wf'')])]),
      (PStr ''gaussian_pulse'', PDict [
        (PStr ''operation'', PStr ''control''),
        (PStr ''length'', PInt gauss_len),
        (PStr ''waveforms'', PDict [
          (PStr ''I'', PStr ''gauss_wf''),
          (PStr ''Q'', PStr ''zero_wf'')])]),
      (PStr ''displace_pulse'', PDict [
        (PStr ''operation'', PStr ''control''),
        (PStr ''length'', PInt displace_len),
        (PStr ''waveforms'', PDict [
          (PStr ''I'', PStr ''displace_wf''),
          (PStr ''Q'', PStr ''displace_wf'')])]),
      (PStr ''x90_pulse'', PDict [
        (PStr ''operation'', PStr ''control''),
        (PStr ''length'', PInt x90_len),
        (PStr ''waveforms'', PDict [
          (PStr ''I'', PStr ''x90_I_wf''),
          (PStr ''Q'', PStr ''x90_Q_wf'')])]),
      (PStr ''x180_pulse'', PDict [
        (PStr ''operation'', PStr ''control''),
        (PStr ''length'', PInt x180_len),
        (PStr ''waveforms'', PDict [
          (PStr ''I'', PStr ''x180_I_wf''),
          (PStr ''Q'', PStr ''x180_Q_wf'')])]),
      (PStr ''-x90_pulse'', PDict [
        (PStr ''operation'', PStr ''control''),
        (PStr ''length'', PInt minus_x90_len),
        (PStr ''waveforms'', PDict [
          (PStr ''I'', PStr ''minus_x90_I_wf''),
          (PStr ''Q'', PStr ''minus_x90_Q_wf'')])]),
      (PStr ''y90_pulse'', PDict [
        (PStr ''operation'', PStr ''control''),
        (PStr ''length'', PInt y90_len),
        (PStr ''waveforms'', PDict [
          (PStr ''I'', PStr ''y90_I_wf''),
          (PStr ''Q'', PStr ''y90_Q_wf'')])]),
      (PStr ''y180_pulse'', PDict [
        (PStr ''operation'', PStr ''control''),
        (PStr ''length'', PInt y180_len),
        (PStr ''waveforms'', PDict [
          (PStr ''I'', PStr ''y180_I_wf''),
          (PStr ''Q'', PStr ''y180_Q_wf'')])]),
      (PStr ''-y90_pulse'', PDict [
        (PStr ''operation'', PStr ''control''),
        (PStr ''length'', PInt minus_y90_len),
        (PStr ''waveforms'', PDict [
          (PStr ''I'', PStr ''minus_y90_I_wf''),
          (PStr ''Q'', PStr ''minus_y90_Q_wf'')])]),
      (PStr ''short_readout_pulse'', PDict [
        (PStr ''operation'', PStr ''measurement''),
        (PStr ''length'', PInt short_readout_len),
        (PStr ''waveforms'', PDict [
          (PStr ''I'', PStr ''short_readout_wf''),
          (PStr ''Q'', PStr ''zero_wf'')]),
        (PStr ''integration_weights'', PDict [
          (PStr ''cos'', PStr ''short_cosine_weights''),
          (PStr ''sin'', PStr ''short_sine_weights''),
          (PStr ''minus_sin'', PStr ''short_minus_sine_weights''),
          (PStr ''rotated_cos'', PStr ''short_rotated_cosine_weights''),
          (PStr ''rotated_sin'', PStr ''short_rotated_sine_weights''),
          (PStr ''rotated_minus_sin'', PStr ''short_rotated_minus_sine_weights'')]),
        (PStr ''digital_marker'', PStr ''ON'')]),
      (PStr ''readout_pulse'', PDict [
        (PStr ''operation'', PStr ''measurement''),
        (PStr ''length'', PInt readout_len),
        (PStr ''waveforms'', PDict [
          (PStr ''I'', PStr ''readout_wf''),
          (PStr ''Q'', PStr ''zero_wf'')]),
        (PStr ''integration_weights'', PDict [
          (PStr ''cos'', PStr ''cosine_weights''),
          (PStr ''sin'', PStr ''sine_weights''),
          (PStr ''minus_sin'', PStr ''minus_sine_weights''),
          (PStr ''rotated_cos'', PStr ''rotated_cosine_weights''),
          (PStr ''rotated_sin'', PStr ''rotated_sine_weights''),
          (PStr ''rotated_minus_sin'', PStr ''rotated_minus_sine_weights'')]),
        (PStr ''digital_marker'', PStr ''ON'')]),
      (PStr ''long_readout_pulse'', PDict [
        (PStr ''operation'', PStr ''measurement''),
        (PStr ''length'', PInt long_readout_len),
        (PStr ''waveforms'', PDict [
          (PStr ''I'', PStr ''long_readout_wf''),
          (PStr ''Q'', PStr ''zero_wf'')]),
        (PStr ''integration_weights'', PDict [
          (PStr ''cos'', PStr ''long_cosine_weights''),
          (PStr ''sin'', PStr ''long_sine_weights''),
          (PStr ''minus_sin'', PStr ''long_minus_sine_weights''),
          (PStr ''rotated_cos'', PStr ''long_rotated_cosine_weights''),
          (PStr ''rotated_sin'', PStr ''long_rotated_sine_weights''),
          (PStr ''rotated_minus_sin'', PStr ''long_rotated_minus_sine_weights'')]),
        (PStr ''digital_marker'', PStr ''ON'')])]"

definition config_waveforms :: "library \<Rightarrow> pyval" where
  "config_waveforms lib =
    PDict [
      (PStr ''const_flux_wf'', PDict [
        (PStr ''type'', PStr ''constant''),
        (PStr ''sample'', PFloat const_flux_amp)]),
      (PStr ''const_wf'', PDict [
        (PStr ''type'', PStr ''constant''),
        (PStr ''sample'', PFloat const_amp)]),
      (PStr ''saturation_drive_wf'', PDict [
        (PStr ''type'', PStr ''constant''),
        (PStr ''sample'', PFloat saturation_amp)]),
      (PStr ''square_pi_wf'', PDict [
        (PStr ''type'', PStr ''constant''),
        (PStr ''sample'', PFloat square_pi_amp)]),
      (PStr ''displace_wf'', PDict [
        (PStr ''type'', PStr ''arbitrary''),
        (PStr ''samples'', PList (map PFloat (displace_wf lib)))]),
      (PStr ''zero_wf'', PDict [
        (PStr ''type'', PStr ''constant''),
        (PStr ''sample'', PFloat 0)]),
      (PStr ''gauss_wf'', PDict [
        (PStr ''type'', PStr ''arbitrary''),
        (PStr ''samples'', PList (map PFloat (gauss_wf lib)))]),
      (PStr ''x90_I_wf'', PDict [
        (PStr ''type'', PStr ''arbitrary''),
        (PStr ''samples'', PList (map PFloat (x90_I_wf lib)))]),
      (PStr ''x90_Q_wf'', PDict [
        (PStr ''type'', PStr ''arbitrary''),
        (PStr ''samples'', PList (map PFloat (x90_Q_wf lib)))]),
      (PStr ''x180_I_wf'', PDict [
        (PStr ''type'', PStr ''arbitrary''),
        (PStr ''samples'', PList (map PFloat (x180_I_wf lib)))]),
      (PStr ''x180_Q_wf'', PDict [
        (PStr ''type'', PStr ''arbitrary''),
        (PStr ''samples'', PList (map PFloat (x180_Q_wf lib)))]),
      (PStr ''minus_x90_I_wf'', PDict [
        (PStr ''type'', PStr ''arbitrary''),
        (PStr ''samples'', PList (map PFloat (minus_x90_I_wf lib)))]),
      (PStr ''minus_x90_Q_wf'', PDict [
        (PStr ''type'', PStr ''arbitrary''),
        (PStr ''samples'', PList (map PFloat (minus_x90_Q_wf lib)))]),
      (PStr ''y90_Q_wf'', PDict [
        (PStr ''type'', PStr ''arbitrary''),
        (PStr ''samples'', PList (map PFloat (y90_Q_wf lib)))]),
      (PStr ''y90_I_wf'', PDict [
        (PStr ''type'', PStr ''arbitrary''),
        (PStr ''samples'', PList (map PFloat (y90_I_wf lib)))]),
      (PStr ''y180_Q_wf'', PDict [
        (PStr ''type'', PStr ''arbitrary''),
        (PStr ''samples'', PList (map PFloat (y180_Q_wf lib)))]),
      (PStr ''y180_I_wf'', PDict [
        (PStr ''type'', PStr ''arbitrary''),
        (PStr ''samples'', PList (map PFloat (y180_I_wf lib)))]),
      (PStr ''minus_y90_Q_wf'', PDict [
        (PStr ''type'', PStr ''arbitrary''),
        (PStr ''samples'', PList (map PFloat (minus_y90_Q_wf lib)))]),
      (PStr ''minus_y90_I_wf'', PDict [
        (PStr ''type'', PStr ''arbitrary''),
        (PStr ''samples'', PList (map PFloat (minus_y90_I_wf lib)))]),
      (PStr ''short_readout_wf'', PDict [
        (PStr ''type'', PStr ''constant''),
        (PStr ''sample'', PFloat short_readout_amp)]),
      (PStr ''readout_wf'', PDict [
        (PStr ''type'', PStr ''constant''),
        (PStr ''sample'', PFloat readout_amp)]),
      (PStr ''long_readout_wf'', PDict [
        (PStr ''type'', PStr ''constant''),
        (PStr ''sample'', PFloat long_readout_amp)])]"

definition config_digital_waveforms :: pyval where
  "config_digital_waveforms =
    PDict [
      (PStr ''ON'', PDict [
        (PStr ''samples'', PList [PTuple [PInt 1, PInt 0]])])]"

definition config_integration_weights :: pyval where
  "config_integration_weights =
    PDict [
      (PStr ''short_cosine_weights'', PDict [
        (PStr ''cosine'', PList [PTuple [PFloat 1, PInt short_readout_len]]),
        (PStr ''sine'', PList [PTuple [PFloat 0, PInt short_readout_len]])]),
      (PStr ''short_sine_weights'', PDict [
        (PStr ''cosine'', PList [PTuple [PFloat 0, PInt short_readout_len]]),
        (PStr ''sine'', PList [PTuple [PFloat 1, PInt short_readout_len]])]),
      (PStr ''short_minus_sine_weights'', PDict [
        (PStr ''cosine'', PList [PTuple [PFloat 0, PInt short_readout_len]]),
        (PStr ''sine'', PList [PTuple [PFloat (- 1), PInt short_readout_len]])]),
      (PStr ''short_rotated_cosine_weights'', PDict [
        (PStr ''cosine'', PList [PTuple [PFloat (cos rotation_angle), PInt short_readout_len]]),
        (PStr ''sine'', PList [PTuple [PFloat (- sin rotation_angle), PInt short_readout_len]])]),
      (PStr ''short_rotated_sine_weights'', PDict [
        (PStr ''cosine'', PList [PTuple [PFloat (sin rotation_angle), PInt short_readout_len]]),
        (PStr ''sine'', PList [PTuple [PFloat (cos rotation_angle), PInt short_readout_len]])]),
      (PStr ''short_rotated_minus_sine_weights'', PDict [
        (PStr ''cosine'', PList [PTuple [PFloat (- sin rotation_angle), PInt short_readout_len]]),
        (PStr ''sine'', PList [PTuple [PFloat (- cos rotation_angle), PInt short_readout_len]])]),
      (PStr ''cosine_weights'', PDict [
        (PStr ''cosine'', PList [PTuple [PFloat 1, PInt readout_len]]),
        (PStr ''sine'', PList [PTuple [PFloat 0, PInt readout_len]])]),
      (PStr ''sine_weights'', PDict [
        (PStr ''cosine'', PList [PTuple [PFloat 0, PInt readout_len]]),
        (PStr ''sine'', PList [PTuple [PFloat 1, PInt readout_len]])]),
      (PStr ''minus_sine_weights'', PDict [
        (PStr ''cosine'', PList [PTuple [PFloat 0, PInt readout_len]]),
        (PStr ''sine'', PList [PTuple [PFloat (- 1), PInt readout_len]])]),
      (PStr ''rotated_cosine_weights'', PDict [
        (PStr ''cosine'', PList [PTuple [PFloat (cos rotation_angle), PInt readout_len]]),
        (PStr ''sine'', PList [PTuple [PFloat (- sin rotation_angle), PInt readout_len]])]),
      (PStr ''rotated_sine_weights'', PDict [
        (PStr ''cosine'', PList [PTuple [PFloat (sin rotation_angle), PInt readout_len]]),
        (PStr ''sine'', PList [PTuple [PFloat (cos rotation_angle), PInt readout_len]])]),
      (PStr ''rotated_minus_sine_weights'', PDict [
        (PStr ''cosine'', PList [PTuple [PFloat (- sin rotation_angle), PInt readout_len]]),
        (PStr ''sine'', PList [PTuple [PFloat (- cos rotation_angle), PInt readout_len]])]),
      (PStr ''long_cosine_weights'', PDict [
        (PStr ''cosine'', PList [PTuple [PFloat 1, PInt long_readout_len]]),
        (PStr ''sine'', PList [PTuple [PFloat 0, PInt long_readout_len]])]),
      (PStr ''long_sine_weights'', PDict [
        (PStr ''cosine'', PList [PTuple [PFloat 0, PInt long_readout_len]]),
        (PStr ''sine'', PList [PTuple [PFloat 1, PInt long_readout_len]])]),
      (PStr ''long_minus_sine_weights'', PDict [
        (PStr ''cosine'', PList [PTuple [PFloat 0, PInt long_readout_len]]),
        (PStr ''sine'', PList [PTuple [PFloat (- 1), PInt long_readout_len]])]),
      (PStr ''long_rotated_cosine_weights'', PDict [
        (PStr ''cosine'', PList [PTuple [PFloat (cos rotation_angle), PInt long_readout_len]]),
        (PStr ''sine'', PList [PTuple [PFloat (- sin rotation_angle), PInt long_readout_len]])]),
      (PStr ''long_rotated_sine_weights'', PDict [
        (PStr ''cosine'', PList [PTuple [PFloat (sin rotation_angle), PInt long_readout_len]]),
        (PStr ''sine'', PList [PTuple [PFloat (cos rotation_angle), PInt long_readout_len]])]),
      (PStr ''long_rotated_minus_sine_weights'', PDict [
        (PStr ''cosine'', PList [PTuple [PFloat (- sin rotation_angle), PInt long_readout_len]]),
        (PStr ''sine'', PList [PTuple [PFloat (- cos rotation_angle), PInt long_readout_len]])])]"

definition config_mixers :: "library \<Rightarrow> pyval" where
  "config_mixers lib =
    PDict [
      (PStr ''mixer_qe0'', PList [PDict [
        (PStr ''intermediate_frequency'', PFloat (qe0_IF lib)),
        (PStr ''lo_frequency'', PFloat (qe0_LO lib)),
        (PStr ''correction'', PList (map py_of_fl (IQ_imbalance mixer_qe0_g mixer_qe0_phi)))]]),
      (PStr ''mixer_qe1'', PList [PDict [
        (PStr ''intermediate_frequency'', PFloat (qe1_IF lib)),
        (PStr ''lo_frequency'', PFloat (qe1_LO lib)),
        (PStr ''correction'', PList (map py_of_fl (IQ_imbalance mixer_qe1_g mixer_qe1_phi)))]]),
      (PStr ''mixer_rr0'', PList [PDict [
        (PStr ''intermediate_frequency'', PFloat (rr0_IF lib)),
        (PStr ''lo_frequency'', PFloat (rr0_LO lib)),
        (PStr ''correction'', PList (map py_of_fl (IQ_imbalance mixer_rr0_g mixer_rr0_phi)))]]),
      (PStr ''mixer_rr1'', PList [PDict [
        (PStr ''intermediate_frequency'', PFloat (rr1_IF lib)),
        (PStr ''lo_frequency'', PFloat (rr1_LO lib)),
        (PStr ''correction'', PList (map py_of_fl (IQ_imbalance mixer_rr1_g mixer_rr1_phi)))]])]"

definition config_rb :: "library \<Rightarrow> pyval" where
  "config_rb lib =
     PDict [
       (PStr ''version'', PInt 1),
       (PStr ''controllers'', config_controllers),
       (PStr ''elements'', config_elements lib),
       (PStr ''pulses'', config_pulses),
       (PStr ''waveforms'', config_waveforms lib),
       (PStr ''digital_waveforms'', config_digital_waveforms),
       (PStr ''integration_weights'', config_integration_weights),
       (PStr ''mixers'', config_mixers lib)]"

subsection \<open>Reading a configuration\<close>

text \<open>
  \<open>dict_get d key\<close> is \<open>d.get(key)\<close> for a string key: a dictionary display keeps the
  last value given for a key. \<open>dict_items\<close> and \<open>dict_keys\<close> read a value that is
  expected to be a dictionary.
\<close>

definition dict_get :: "pyval \<Rightarrow> string \<Rightarrow> pyval option" where
  "dict_get d key = (case d of PDict items \<Rightarrow> map_of (rev items) (PStr key) | _ \<Rightarrow> None)"

definition dict_items :: "pyval option \<Rightarrow> (pyval \<times> pyval) list option" where
  "dict_items d = (case d of Some (PDict items) \<Rightarrow> Some items | _ \<Rightarrow> None)"

definition dict_keys :: "pyval option \<Rightarrow> pyval list" where
  "dict_keys d = (case d of Some (PDict items) \<Rightarrow> map fst items | _ \<Rightarrow> [])"

definition is_numeric :: "pyval \<Rightarrow> bool" where
  "is_numeric v = (case v of PInt _ \<Rightarrow> True | PFloat _ \<Rightarrow> True | _ \<Rightarrow> False)"

definition num_val :: "pyval \<Rightarrow> real option" where
  "num_val v = (case v of PInt i \<Rightarrow> Some (real_of_int i) | PFloat x \<Rightarrow> Some x | _ \<Rightarrow> None)"

text \<open>
  The terms of claim C5. A pulse is well formed when it has a string \<open>operation\<close>, a
  numeric \<open>length\<close> and a dictionary \<open>waveforms\<close> whose values are all keys of the
  top-level \<open>waveforms\<close> table. The operations of a configuration are defined when
  every value of every element's \<open>operations\<close> dictionary is a key of \<open>pulses\<close>.
\<close>

definition pulse_well_formed :: "pyval list \<Rightarrow> pyval \<Rightarrow> bool" where
  "pulse_well_formed waveform_names pulse \<longleftrightarrow>
     (case dict_get pulse ''operation'' of Some (PStr _) \<Rightarrow> True | _ \<Rightarrow> False)
   \<and> (case dict_get pulse ''length'' of Some v \<Rightarrow> is_numeric v | None \<Rightarrow> False)
   \<and> (case dict_items (dict_get pulse ''waveforms'') of
        Some ws \<Rightarrow> list_all (\<lambda>(port, name). name \<in> set waveform_names) ws
      | None \<Rightarrow> False)"

definition pulses_well_formed :: "pyval \<Rightarrow> bool" where
  "pulses_well_formed config \<longleftrightarrow>
     (let waveform_names = dict_keys (dict_get config ''waveforms'') in
      case dict_items (dict_get config ''pulses'') of
        Some ps \<Rightarrow> list_all (\<lambda>(name, pulse). pulse_well_formed waveform_names pulse) ps
      | None \<Rightarrow> False)"

definition operations_defined :: "pyval \<Rightarrow> bool" where
  "operations_defined config \<longleftrightarrow>
     (let pulse_names = dict_keys (dict_get config ''pulses'') in
      case dict_items (dict_get config ''elements'') of
        Some es \<Rightarrow>
          list_all (\<lambda>(name, element).
            case dict_items (dict_get element ''operations'') of
              Some ops \<Rightarrow> list_all (\<lambda>(op, pulse). pulse \<in> set pulse_names) ops
            | None \<Rightarrow> False) es
      | None \<Rightarrow> False)"

text \<open>
  The terms of claim C6. An integration-weights list is a list of pairs
  \<open>(value, duration)\<close>; \<open>total_duration\<close> adds the durations up. The weights of a
  measurement pulse are consistent when every name in its \<open>integration_weights\<close>
  dictionary is a key of the top-level \<open>integration_weights\<close> table whose entry has a
  \<open>cosine\<close> and a \<open>sine\<close> list, each of total duration equal to the pulse's \<open>length\<close>.
\<close>

fun total_duration :: "pyval list \<Rightarrow> real option" where
  "total_duration [] = Some 0"
| "total_duration (PTuple [v, d] # rest) =
     (case (num_val d, total_duration rest) of
        (Some x, Some y) \<Rightarrow> Some (x + y)
      | _ \<Rightarrow> None)"
| "total_duration (_ # rest) = None"

definition weights_cover :: "pyval \<Rightarrow> string \<Rightarrow> real \<Rightarrow> bool" where
  "weights_cover entry part len \<longleftrightarrow>
     (case dict_get entry part of
        Some (PList segments) \<Rightarrow> total_duration segments = Some len
      | _ \<Rightarrow> False)"

definition pulse_weights_consistent :: "pyval \<Rightarrow> pyval \<Rightarrow> bool" where
  "pulse_weights_consistent weights_table pulse \<longleftrightarrow>
     (if dict_get pulse ''operation'' = Some (PStr ''measurement'') then
        (case (dict_items (dict_get pulse ''integration_weights''),
               case dict_get pulse ''length'' of Some v \<Rightarrow> num_val v | None \<Rightarrow> None) of
           (Some refs, Some len) \<Rightarrow>
             list_all (\<lambda>(label, name).
               case name of
                 PStr n \<Rightarrow>
                   (case dict_get weights_table n of
                      Some entry \<Rightarrow> weights_cover entry ''cosine'' len
                                      \<and> weights_cover entry ''sine'' len
                    | None \<Rightarrow> False)
               | _ \<Rightarrow> False) refs
         | _ \<Rightarrow> False)
      else True)"

definition weights_consistent :: "pyval \<Rightarrow> bool" where
  "weights_consistent config \<longleftrightarrow>
     (case (dict_get config ''integration_weights'', dict_items (dict_get config ''pulses'')) of
        (Some weights_table, Some ps) \<Rightarrow>
          list_all (\<lambda>(name, pulse). pulse_weights_consistent weights_table pulse) ps
      | _ \<Rightarrow> False)"

text \<open>How many measurement pulses a configuration has.\<close>

definition measurement_pulses :: "pyval \<Rightarrow> pyval list" where
  "measurement_pulses config =
     (case dict_items (dict_get config ''pulses'') of
        Some ps \<Rightarrow>
          map fst (filter (\<lambda>(name, pulse).
            dict_get pulse ''operation'' = Some (PStr ''measurement'')) ps)
      | None \<Rightarrow> [])"

section \<open>Properties\<close>

subsection \<open>\<open>binary\<close>\<close>
















subsection \<open>\<open>IQ_imbalance\<close>\<close>



subsection \<open>Extended floats\<close>

lemma dbl_overflow_gt: "1 < dbl_overflow"
proof -
  have "(2::real) ^ 970 * 2 = 2 ^ 971" by simp
  have "(2::real) ^ 1024 = 2 ^ 970 * 2 ^ 54" by (simp add: power_add [symmetric])
  then have "dbl_overflow = 2 ^ 970 * (2 ^ 54 - 1)" by (simp add: dbl_overflow_def algebra_simps)
  moreover have "(1::real) \<le> 2 ^ 970" by simp
  moreover have "(1::real) < 2 ^ 54 - 1" by simp
  ultimately show ?thesis
    by (metis less_le_trans mult.commute mult.right_neutral mult_le_cancel_left_pos zero_less_one less_trans)
qed



lemma dbl_overflow_ge: "2 ^ 1023 \<le> dbl_overflow"
proof -
  have "(2::real) ^ 1024 = 2 ^ 970 * 2 ^ 54" and "(2::real) ^ 1023 = 2 ^ 970 * 2 ^ 53"
    by (simp_all add: power_add [symmetric])
  then have "dbl_overflow - 2 ^ 1023 = 2 ^ 970 * (2 ^ 54 - 1 - 2 ^ 53)"
    by (simp add: dbl_overflow_def algebra_simps)
  moreover have "(0::real) \<le> 2 ^ 54 - 1 - 2 ^ 53" by simp
  ultimately have "0 \<le> dbl_overflow - 2 ^ 1023" by simp
  then show ?thesis by simp
qed



subsection \<open>\<open>gauss\<close>\<close>















subsection \<open>\<open>exponential_decay\<close>\<close>





subsection \<open>\<open>cross_entropy\<close>\<close>

text \<open>What the call leaves in the store, and what it returns.\<close>

lemma cross_entropy_store:
  assumes "p < length s" and "q < length s"
  shows "\<exists>tmp. snd (cross_entropy p q epsilon s)
           = s @ [map (map_option (\<lambda>v. max v epsilon)) (s ! q),
                  map fl_log (map (map_option (\<lambda>v. max v epsilon)) (s ! q))] @ tmp"
  using assms
  by (auto simp: cross_entropy_def np_maximum_def np_log_def np_multiply_def alloc_def Let_def
           nth_append split: sum.splits prod.splits)

lemma cross_entropy_result:
  assumes "p < length s" and "q < length s"
  shows "fst (cross_entropy p q epsilon s) =
     (let l = map fl_log (map (map_option (\<lambda>v. max v epsilon)) (s ! q)); ps = s ! p in
      if length ps = length l then Inr (map_option uminus (foldl fl_add (Some 0) (map2 fl_mul ps l)))
      else if length ps = 1 then Inr (map_option uminus (foldl fl_add (Some 0) (map (fl_mul (hd ps)) l)))
      else if length l = 1 then Inr (map_option uminus (foldl fl_add (Some 0) (map (\<lambda>v. fl_mul v (hd l)) ps)))
      else Inl ValueError)"
  using assms
  by (auto simp: cross_entropy_def np_maximum_def np_log_def np_multiply_def np_sum_def alloc_def
           Let_def nth_append split: sum.splits prod.splits)




subsection \<open>Purity of the numeric helpers\<close>

lemma gauss_store:
  "gauss amplitude mu sigma len xs
     = (fst (gauss amplitude mu sigma len []), xs @ snd (gauss amplitude mu sigma len []))"
proof (cases "int_truediv (- len) 2")
  case (Inl e)
  then show ?thesis by (simp add: gauss_def)
next
  case start: (Inr start)
  show ?thesis
  proof (cases "int_truediv len 2")
    case (Inl e)
    with start show ?thesis by (simp add: gauss_def)
  next
    case stop: (Inr stop)
    show ?thesis
    proof (cases "linspace start stop len")
      case (Inl e)
      with start stop show ?thesis by (simp add: gauss_def)
    next
      case points: (Inr points)
      show ?thesis
      proof (cases "float_pow2 sigma")
        case (Inl e)
        show ?thesis
          apply (simp only: gauss_def start stop points Inl sum.case)
          apply (simp add: xalloc_def np_elementwise_def nth_append Let_def split_def)
          done
      next
        case (Inr sigma2)
        show ?thesis
          apply (simp only: gauss_def start stop points Inr sum.case)
          apply (simp add: xalloc_def np_elementwise_def nth_append Let_def split_def)
          done
      qed
    qed
  qed
qed

lemma IQ_imbalance_call_store:
  "snd (IQ_imbalance_call g phi st) = st @ snd (IQ_imbalance_call g phi [])"
  by (simp add: IQ_imbalance_call_def alloc_def Let_def nth_append)

lemma IQ_imbalance_call_result:
  "returned_list (IQ_imbalance_call g phi st) =
     (if dbl_overflow \<le> g\<^sup>2 then Inl OverflowError else Inr (IQ_imbalance g phi))"
  by (simp add: returned_list_def IQ_imbalance_call_def IQ_imbalance_def alloc_def Let_def
      nth_append fl_mul_def fl_div_def)

text \<open>
  Claim C7. Each of the three functions is run in a store that holds the arrays and
  lists of the program. \<open>cross_entropy\<close> receives two arrays: its result depends on
  the contents of the two arrays and on \<open>epsilon\<close> only, so two calls, in any two
  stores and at any addresses, return the same value when the arrays passed hold the
  same numbers. \<open>gauss\<close> and \<open>IQ_imbalance\<close> receive numbers: what they return (the
  list, or the exception) is the same in any two stores. And each of the three
  calls leaves every array that was in the store as it was; what it adds are the
  fresh arrays of its intermediate results and of its result. Where \<open>g**2\<close> does
  not overflow, the list that the call of \<open>IQ_imbalance\<close> returns is
  \<open>IQ_imbalance g phi\<close>.
\<close>

theorem numeric_helpers_pure:
  assumes "p < length s" and "q < length s" and "p' < length t" and "q' < length t"
    and "s ! p = t ! p'" and "s ! q = t ! q'"
  shows "fst (cross_entropy p q epsilon s) = fst (cross_entropy p' q' epsilon t)
       \<and> take (length s) (snd (cross_entropy p q epsilon s)) = s
       \<and> fst (gauss amplitude mu sigma len xs) = fst (gauss amplitude mu sigma len ys)
       \<and> take (length xs) (snd (gauss amplitude mu sigma len xs)) = xs
       \<and> returned_list (IQ_imbalance_call g phi s) = returned_list (IQ_imbalance_call g phi t)
       \<and> take (length s) (snd (IQ_imbalance_call g phi s)) = s
       \<and> (g\<^sup>2 < dbl_overflow \<longrightarrow>
            returned_list (IQ_imbalance_call g phi s) = Inr (IQ_imbalance g phi))"
proof -
  have res: "fst (cross_entropy p q epsilon s) = fst (cross_entropy p' q' epsilon t)"
    unfolding cross_entropy_result [OF assms(1,2)] cross_entropy_result [OF assms(3,4)]
    by (simp only: assms(5,6))
  from cross_entropy_store [OF assms(1,2), of epsilon]
  have old: "take (length s) (snd (cross_entropy p q epsilon s)) = s" by auto
  have g1: "fst (gauss amplitude mu sigma len xs) = fst (gauss amplitude mu sigma len ys)"
    by (subst gauss_store [of _ _ _ _ xs], subst gauss_store [of _ _ _ _ ys]) simp
  have g2: "take (length xs) (snd (gauss amplitude mu sigma len xs)) = xs"
    by (subst gauss_store [of _ _ _ _ xs]) simp
  have i1: "returned_list (IQ_imbalance_call g phi s) = returned_list (IQ_imbalance_call g phi t)"
    by (simp only: IQ_imbalance_call_result)
  have i2: "take (length s) (snd (IQ_imbalance_call g phi s)) = s"
    by (subst IQ_imbalance_call_store) simp
  have i3: "g\<^sup>2 < dbl_overflow \<longrightarrow>
      returned_list (IQ_imbalance_call g phi s) = Inr (IQ_imbalance g phi)"
    by (simp add: IQ_imbalance_call_result)
  from res old g1 g2 i1 i2 i3 show ?thesis by blast
qed

text \<open>
  The theorem on two different stores that hold the same two arrays at different
  addresses, on \<open>gauss\<close> in an empty store and in a store with one array, and on
  \<open>IQ_imbalance(0, 0)\<close>.
\<close>

theorem numeric_helpers_pure_witness:
  "(0::nat) < length [[Some (1 / 2), Some (1 / 2)], [Some 0, Some 1 :: fl]]
   \<and> (1::nat) < length [[Some (1 / 2), Some (1 / 2)], [Some 0, Some 1 :: fl]]
   \<and> (2::nat) < length [[Some 9], [Some 0, Some 1], [Some (1 / 2), Some (1 / 2) :: fl]]
   \<and> (1::nat) < length [[Some 9], [Some 0, Some 1], [Some (1 / 2), Some (1 / 2) :: fl]]
   \<and> fst (cross_entropy 0 1 (1 / 10 ^ 15) [[Some (1 / 2), Some (1 / 2)], [Some 0, Some 1]])
       = fst (cross_entropy 2 1 (1 / 10 ^ 15)
               [[Some 9], [Some 0, Some 1], [Some (1 / 2), Some (1 / 2)]])
   \<and> take (length [[Some (1 / 2), Some (1 / 2)], [Some 0, Some 1 :: fl]])
        (snd (cross_entropy 0 1 (1 / 10 ^ 15) [[Some (1 / 2), Some (1 / 2)], [Some 0, Some 1]]))
       = [[Some (1 / 2), Some (1 / 2)], [Some 0, Some 1]]
   \<and> fst (gauss (Fin 1) (Fin 0) (Fin 1) 3 []) = fst (gauss (Fin 1) (Fin 0) (Fin 1) 3 [[Fin 9]])
   \<and> take (length [[Fin 9]]) (snd (gauss (Fin 1) (Fin 0) (Fin 1) 3 [[Fin 9]])) = [[Fin 9]]
   \<and> returned_list (IQ_imbalance_call 0 0 [[Some (1 / 2), Some (1 / 2)], [Some 0, Some 1]])
       = Inr [Some 1, Some 0, Some 0, Some 1]
   \<and> take (length [[Some (1 / 2), Some (1 / 2)], [Some 0, Some 1 :: fl]])
        (snd (IQ_imbalance_call 0 0 [[Some (1 / 2), Some (1 / 2)], [Some 0, Some 1]]))
       = [[Some (1 / 2), Some (1 / 2)], [Some 0, Some 1]]"
proof -
  let ?s = "[[Some (1 / 2), Some (1 / 2)], [Some 0, Some 1 :: fl]]"
  let ?t = "[[Some 9], [Some 0, Some 1], [Some (1 / 2), Some (1 / 2) :: fl]]"
  have h1: "(0::nat) < length ?s" and h2: "(1::nat) < length ?s"
    and h3: "(2::nat) < length ?t" and h4: "(1::nat) < length ?t" by simp_all
  have h5: "?s ! 0 = ?t ! 2" and h6: "?s ! 1 = ?t ! 1" by simp_all
  note t = numeric_helpers_pure [OF h1 h2 h3 h4 h5 h6]
  have c1: "fst (cross_entropy 0 1 (1 / 10 ^ 15) ?s) = fst (cross_entropy 2 1 (1 / 10 ^ 15) ?t)"
    using t by blast
  have c2: "take (length ?s) (snd (cross_entropy 0 1 (1 / 10 ^ 15) ?s)) = ?s"
    using t by blast
  have g1: "fst (gauss (Fin 1) (Fin 0) (Fin 1) 3 []) = fst (gauss (Fin 1) (Fin 0) (Fin 1) 3 [[Fin 9]])"
    using t by blast
  have g2: "take (length [[Fin 9]]) (snd (gauss (Fin 1) (Fin 0) (Fin 1) 3 [[Fin 9]])) = [[Fin 9]]"
    using t by blast
  have z: "(0::real)\<^sup>2 < dbl_overflow" using dbl_overflow_gt by simp
  have "returned_list (IQ_imbalance_call 0 0 ?s) = Inr (IQ_imbalance 0 0)"
    using t z by blast
  moreover have "IQ_imbalance 0 0 = [Some 1, Some 0, Some 0, Some 1]"
    by (simp add: IQ_imbalance_def fl_div_def Let_def)
  ultimately have i1: "returned_list (IQ_imbalance_call 0 0 ?s)
      = Inr [Some 1, Some 0, Some 0, Some 1]"
    by simp
  have i2: "take (length ?s) (snd (IQ_imbalance_call 0 0 ?s)) = ?s"
    using t by blast
  from h1 h2 h3 h4 c1 c2 g1 g2 i1 i2 show ?thesis by blast
qed

subsection \<open>\<open>reset_qubit\<close> and \<open>active_reset\<close>\<close>

lemma active_reset_validated:
  assumes "threshold \<noteq> ANone" and "number_or_none max_tries" and "max_tries \<noteq> ANone"
    and "arg_integer_valued max_tries" and "\<not> arg_less max_tries 1"
    and "\<not> conversion_overflows max_tries" and "\<not> conversion_overflows threshold"
  shows "\<exists>r. fst (active_reset threshold qubit resonator max_tries Ig s) = Inr r"
  using assms
  by (cases max_tries; cases threshold)
     (auto simp: active_reset_def py_lt_def float_is_integer_def py_add_def arg_less_def
        arg_integer_valued_def number_or_none_def conversion_overflows_def Let_def
        split: prod.splits bool.splits)

lemma active_reset_overflow:
  assumes "threshold \<noteq> ANone" and "number_or_none max_tries" and "max_tries \<noteq> ANone"
    and "arg_integer_valued max_tries" and "\<not> arg_less max_tries 1"
    and "conversion_overflows max_tries \<or> conversion_overflows threshold"
  shows "fst (active_reset threshold qubit resonator max_tries Ig s) = Inl OverflowError"
  using assms
  by (cases max_tries; cases threshold)
     (auto simp: active_reset_def py_lt_def float_is_integer_def py_add_def arg_less_def
        arg_integer_valued_def number_or_none_def conversion_overflows_def Let_def
        split: prod.splits bool.splits)

lemma reset_qubit_cooldown:
  assumes "number_or_none (kwargs_get kwargs ''cooldown_time'' ANone)"
  shows "(\<exists>e. fst (reset_qubit ''cooldown'' qubit resonator kwargs s) = Inl e)
          \<longleftrightarrow> raise_condition ''cooldown'' kwargs"
  using assms
  by (cases "kwargs_get kwargs ''cooldown_time'' ANone")
     (auto simp: reset_qubit_def raise_condition_def validation_fails_def py_lt_def arg_less_def
        number_or_none_def Let_def split: bool.splits)

lemma reset_qubit_active:
  assumes "number_or_none (kwargs_get kwargs ''max_tries'' (AInt 1))"
  shows "(\<exists>e. fst (reset_qubit ''active'' qubit resonator kwargs s) = Inl e)
          \<longleftrightarrow> raise_condition ''active'' kwargs"
proof (cases "kwargs_get kwargs ''threshold'' ANone = ANone")
  case True
  then show ?thesis by (simp add: reset_qubit_def raise_condition_def validation_fails_def)
next
  case th: False
  let ?th = "kwargs_get kwargs ''threshold'' ANone"
  let ?mt = "kwargs_get kwargs ''max_tries'' (AInt 1)"
  let ?check = "(if ?mt = ANone then Inr True
                 else case float_is_integer ?mt of
                        Inl e \<Rightarrow> Inl e
                      | Inr False \<Rightarrow> Inr True
                      | Inr True \<Rightarrow> py_lt ?mt 1)"
  show ?thesis
  proof (cases "?mt = ANone \<or> \<not> arg_integer_valued ?mt \<or> arg_less ?mt 1")
    case True
    with assms have "?check = Inr True \<or> ?check = Inl OverflowError"
      by (cases ?mt)
         (auto simp: float_is_integer_def py_lt_def arg_integer_valued_def
            arg_less_def number_or_none_def split: bool.splits)
    with th have "\<exists>e. fst (reset_qubit ''active'' qubit resonator kwargs s) = Inl e"
      by (auto simp: reset_qubit_def Let_def)
    moreover from True have "raise_condition ''active'' kwargs"
      by (simp add: raise_condition_def validation_fails_def Let_def)
    ultimately show ?thesis by simp
  next
    case False
    then have ok: "?mt \<noteq> ANone" "arg_integer_valued ?mt" "\<not> arg_less ?mt 1" by simp_all
    from False th have rc: "raise_condition ''active'' kwargs
        \<longleftrightarrow> conversion_overflows ?mt \<or> conversion_overflows ?th"
      by (simp add: raise_condition_def validation_fails_def Let_def)
    show ?thesis
    proof (cases "conversion_overflows ?mt")
      case True
      with assms have "?check = Inl OverflowError"
        by (cases ?mt)
           (auto simp: float_is_integer_def conversion_overflows_def number_or_none_def)
      with th have "\<exists>e. fst (reset_qubit ''active'' qubit resonator kwargs s) = Inl e"
        by (auto simp: reset_qubit_def Let_def)
      with rc True show ?thesis by simp
    next
      case mt: False
      have pass: "?check = Inr False"
        using ok assms mt
        by (cases ?mt)
           (auto simp: float_is_integer_def py_lt_def arg_integer_valued_def arg_less_def
              number_or_none_def conversion_overflows_def split: bool.splits)
      show ?thesis
      proof (cases "conversion_overflows ?th")
        case True
        then have "fst (active_reset ?th qubit resonator ?mt (kwargs_get kwargs ''Ig'' ANone) s)
            = Inl OverflowError"
          using active_reset_overflow [OF th assms ok] by blast
        with th have "\<exists>e. fst (reset_qubit ''active'' qubit resonator kwargs s) = Inl e"
          by (auto simp: reset_qubit_def Let_def pass split: prod.splits sum.splits)
        with rc True show ?thesis by simp
      next
        case False
        from active_reset_validated [OF th assms ok mt False]
        obtain r where r: "fst (active_reset ?th qubit resonator
            ?mt (kwargs_get kwargs ''Ig'' ANone) s) = Inr r" by blast
        have "\<not> (\<exists>e. fst (reset_qubit ''active'' qubit resonator kwargs s) = Inl e)"
          using th r by (auto simp: reset_qubit_def Let_def pass split: prod.splits sum.splits)
        with rc mt False show ?thesis by simp
      qed
    qed
  qed
qed

lemma reset_qubit_other:
  assumes "method \<noteq> ''cooldown''" and "method \<noteq> ''active''"
  shows "reset_qubit method qubit resonator kwargs s = (Inr None, s)"
  using assms by (simp add: reset_qubit_def)

lemma int_fits: "\<bar>real_of_int i\<bar> < 2 ^ 1023 \<Longrightarrow> \<not> int_too_large i"
  using dbl_overflow_ge unfolding int_too_large_def by linarith

lemma int_too_large_power: "int_too_large (2 ^ 1024)"
proof -
  have "dbl_overflow \<le> 2 ^ 1024" by (simp add: dbl_overflow_def)
  then show ?thesis unfolding int_too_large_def by simp
qed

text \<open>
  Claim C8, as amended. Let \<open>cooldown_time\<close> and \<open>max_tries\<close>, when passed, be Python
  numbers or \<open>None\<close>. Then \<open>reset_qubit\<close> raises an exception exactly when: \<open>method\<close> is
  \<open>'cooldown'\<close> and \<open>cooldown_time\<close> is absent, \<open>None\<close> or less than 4; or \<open>method\<close> is
  \<open>'active'\<close> and \<open>threshold\<close> is absent or \<open>None\<close>, or \<open>max_tries\<close> (1 when absent) is
  \<open>None\<close>, not integer-valued or less than 1; or \<open>method\<close> is \<open>'active'\<close>, \<open>threshold\<close>
  is given, and \<open>max_tries\<close> or \<open>threshold\<close> is an integer too large for a float, so
  that \<open>float(max_tries)\<close> or \<open>threshold + 2**-28\<close> raises \<open>OverflowError\<close>. For every
  other \<open>method\<close> it does nothing and returns \<open>None\<close>. A \<open>cooldown_time\<close> of 4 is
  accepted, and the call adds the \<open>wait\<close> statement.
\<close>

theorem reset_qubit_raises_iff:
  assumes "number_or_none (kwargs_get kwargs ''cooldown_time'' ANone)"
    and "number_or_none (kwargs_get kwargs ''max_tries'' (AInt 1))"
  shows "((\<exists>e. fst (reset_qubit method qubit resonator kwargs s) = Inl e)
            \<longleftrightarrow> raise_condition method kwargs)
       \<and> (method \<noteq> ''cooldown'' \<and> method \<noteq> ''active'' \<longrightarrow>
            reset_qubit method qubit resonator kwargs s = (Inr None, s))
       \<and> reset_qubit ''cooldown'' qubit resonator [''cooldown_time'' \<mapsto> AInt 4] s
           = (Inr None, emit (Wait (QLit (Fin 4)) qubit) s)"
proof -
  have iff: "(\<exists>e. fst (reset_qubit method qubit resonator kwargs s) = Inl e)
      \<longleftrightarrow> raise_condition method kwargs"
  proof (cases "method = ''cooldown''")
    case True
    with reset_qubit_cooldown [OF assms(1)] show ?thesis by simp
  next
    case nc: False
    show ?thesis
    proof (cases "method = ''active''")
      case True
      with reset_qubit_active [OF assms(2)] show ?thesis by simp
    next
      case False
      with nc show ?thesis
        by (simp add: reset_qubit_other raise_condition_def validation_fails_def)
    qed
  qed
  have four: "reset_qubit ''cooldown'' qubit resonator [''cooldown_time'' \<mapsto> AInt 4] s
      = (Inr None, emit (Wait (QLit (Fin 4)) qubit) s)"
    by (simp add: reset_qubit_def kwargs_get_def py_lt_def of_arg_def)
  from iff four reset_qubit_other show ?thesis by blast
qed

text \<open>
  The theorem on the docstring's example \<open>threshold=-0.003, max_tries=3\<close>, which passes
  the checks, and on \<open>max_tries=0\<close>, which does not.
\<close>

theorem reset_qubit_raises_iff_witness:
  "number_or_none (kwargs_get [''threshold'' \<mapsto> AFloat (Fin (- (3 / 1000))), ''max_tries'' \<mapsto> AInt 3]
      ''cooldown_time'' ANone)
   \<and> number_or_none (kwargs_get [''threshold'' \<mapsto> AFloat (Fin (- (3 / 1000))), ''max_tries'' \<mapsto> AInt 3]
      ''max_tries'' (AInt 1))
   \<and> \<not> raise_condition ''active''
          [''threshold'' \<mapsto> AFloat (Fin (- (3 / 1000))), ''max_tries'' \<mapsto> AInt 3]
   \<and> \<not> (\<exists>e. fst (reset_qubit ''active'' ''q'' ''r''
          [''threshold'' \<mapsto> AFloat (Fin (- (3 / 1000))), ''max_tries'' \<mapsto> AInt 3] empty_prog) = Inl e)
   \<and> raise_condition ''active''
          [''threshold'' \<mapsto> AFloat (Fin (- (3 / 1000))), ''max_tries'' \<mapsto> AInt 0]
   \<and> (\<exists>e. fst (reset_qubit ''active'' ''q'' ''r''
          [''threshold'' \<mapsto> AFloat (Fin (- (3 / 1000))), ''max_tries'' \<mapsto> AInt 0] empty_prog) = Inl e)"
proof -
  let ?ok = "[''threshold'' \<mapsto> AFloat (Fin (- (3 / 1000))), ''max_tries'' \<mapsto> AInt 3]"
  let ?bad = "[''threshold'' \<mapsto> AFloat (Fin (- (3 / 1000))), ''max_tries'' \<mapsto> AInt 0]"
  have a1: "number_or_none (kwargs_get ?ok ''cooldown_time'' ANone)"
    and a2: "number_or_none (kwargs_get ?ok ''max_tries'' (AInt 1))"
    and b1: "number_or_none (kwargs_get ?bad ''cooldown_time'' ANone)"
    and b2: "number_or_none (kwargs_get ?bad ''max_tries'' (AInt 1))"
    by (simp_all add: number_or_none_def kwargs_get_def)
  have "\<not> int_too_large 3"
    by (rule int_fits) simp
  then have v_ok: "\<not> raise_condition ''active'' ?ok"
    by (simp add: raise_condition_def validation_fails_def kwargs_get_def arg_integer_valued_def
        arg_less_def conversion_overflows_def)
  have v_bad: "raise_condition ''active'' ?bad"
    by (simp add: raise_condition_def validation_fails_def kwargs_get_def arg_integer_valued_def
        arg_less_def)
  have "(\<exists>e. fst (reset_qubit ''active'' ''q'' ''r'' ?ok empty_prog) = Inl e)
      \<longleftrightarrow> raise_condition ''active'' ?ok"
    using reset_qubit_raises_iff [OF a1 a2] by blast
  moreover have "(\<exists>e. fst (reset_qubit ''active'' ''q'' ''r'' ?bad empty_prog) = Inl e)
      \<longleftrightarrow> raise_condition ''active'' ?bad"
    using reset_qubit_raises_iff [OF b1 b2] by blast
  ultimately show ?thesis using a1 a2 v_ok v_bad by blast
qed

text \<open>
  The claim as written fails in two ways. When \<open>cooldown_time=None\<close> is passed, the
  keyword is not absent and \<open>None\<close> is not a number less than 4, yet the code's
  \<open>is None\<close> test raises. And with \<open>threshold=2**1024\<close> and \<open>max_tries=1\<close> every
  condition of the claim is false, yet \<open>threshold + 2**-28\<close> raises \<open>OverflowError\<close>.
\<close>

theorem reset_qubit_claim_counterexample:
  "fst (reset_qubit ''cooldown'' ''q'' ''r'' [''cooldown_time'' \<mapsto> ANone] empty_prog)
     = Inl (Exception cooldown_time_message)
   \<and> \<not> claimed_raise ''cooldown'' [''cooldown_time'' \<mapsto> ANone]
   \<and> fst (reset_qubit ''active'' ''q'' ''r''
        [''threshold'' \<mapsto> AInt (2 ^ 1024), ''max_tries'' \<mapsto> AInt 1] empty_prog)
     = Inl OverflowError
   \<and> \<not> claimed_raise ''active'' [''threshold'' \<mapsto> AInt (2 ^ 1024), ''max_tries'' \<mapsto> AInt 1]"
proof -
  have none: "fst (reset_qubit ''cooldown'' ''q'' ''r'' [''cooldown_time'' \<mapsto> ANone] empty_prog)
       = Inl (Exception cooldown_time_message)
     \<and> \<not> claimed_raise ''cooldown'' [''cooldown_time'' \<mapsto> ANone]"
    by (simp add: reset_qubit_def kwargs_get_def claimed_raise_def arg_less_def)
  have small: "\<not> int_too_large 1"
    by (rule int_fits) simp
  have add: "py_add (AInt (2 ^ 1024)) c = Inl OverflowError" for c
    using int_too_large_power by (simp add: py_add_def)
  have run: "fst (reset_qubit ''active'' ''q'' ''r''
        [''threshold'' \<mapsto> AInt (2 ^ 1024), ''max_tries'' \<mapsto> AInt 1] empty_prog)
      = Inl OverflowError"
    using small
    by (simp add: reset_qubit_def kwargs_get_def float_is_integer_def py_lt_def active_reset_def
        add qua_declare_def Let_def del: power_numeral)
  have claim: "\<not> claimed_raise ''active''
      [''threshold'' \<mapsto> AInt (2 ^ 1024), ''max_tries'' \<mapsto> AInt 1]"
    by (simp add: claimed_raise_def kwargs_get_def arg_integer_valued_def arg_less_def)
  from none run claim show ?thesis by blast
qed

subsection \<open>The exceptions of the repository\<close>

lemma active_reset_own:
  "fst (active_reset threshold qubit resonator max_tries Ig s) = Inl (Exception msg)
      \<longleftrightarrow> msg = max_count_message \<and> is_number max_tries
          \<and> (arg_less max_tries 1 \<or> \<not> arg_integer_valued max_tries)"
  by (cases max_tries; cases threshold)
     (auto simp: active_reset_def py_lt_def float_is_integer_def py_add_def arg_less_def
        arg_integer_valued_def is_number_def Let_def split: prod.splits bool.splits)

lemma reset_qubit_own:
  assumes e: "fst (reset_qubit method qubit resonator kwargs s) = Inl (Exception msg)"
  shows "msg \<in> {cooldown_time_message, threshold_message, max_tries_message}
       \<and> validation_fails method kwargs"
proof -
  consider "method = ''cooldown''" | "method = ''active''"
    | "method \<noteq> ''cooldown''" "method \<noteq> ''active''" by blast
  then show ?thesis
  proof cases
    case 1
    with e show ?thesis
      by (cases "kwargs_get kwargs ''cooldown_time'' ANone")
         (auto simp: reset_qubit_def validation_fails_def py_lt_def arg_less_def Let_def
            split: bool.splits if_splits)
  next
    case 2
    let ?th = "kwargs_get kwargs ''threshold'' ANone"
    let ?mt = "kwargs_get kwargs ''max_tries'' (AInt 1)"
    show ?thesis
    proof (cases "?th = ANone")
      case True
      with e 2 show ?thesis by (simp add: reset_qubit_def validation_fails_def)
    next
      case th: False
      show ?thesis
      proof (cases "?mt = ANone \<or> \<not> arg_integer_valued ?mt \<or> arg_less ?mt 1")
        case True
        then have v: "validation_fails method kwargs"
          using 2 by (simp add: validation_fails_def Let_def)
        from e 2 th have "msg = max_tries_message"
          using active_reset_own [of ?th qubit resonator ?mt "kwargs_get kwargs ''Ig'' ANone" s msg]
            True
          by (cases ?mt)
             (auto simp: reset_qubit_def float_is_integer_def py_lt_def arg_integer_valued_def
                arg_less_def is_number_def Let_def
                split: bool.splits if_splits prod.splits sum.splits)
        with v show ?thesis by simp
      next
        case False
        then have "fst (active_reset ?th qubit resonator ?mt (kwargs_get kwargs ''Ig'' ANone) s)
            \<noteq> Inl (Exception msg)"
          using active_reset_own [of ?th qubit resonator ?mt "kwargs_get kwargs ''Ig'' ANone" s msg]
          by blast
        with e 2 th False show ?thesis
          by (cases ?mt)
             (auto simp: reset_qubit_def float_is_integer_def py_lt_def arg_integer_valued_def
                arg_less_def Let_def split: bool.splits if_splits prod.splits sum.splits)
      qed
    qed
  next
    case 3
    with e show ?thesis by (simp add: reset_qubit_def)
  qed
qed

lemma sequence_results_raise:
  "sequence_results rs = Inl e \<Longrightarrow> Inl e \<in> set rs"
  by (induction rs) (auto split: sum.splits)

lemma amplitude_assignment_raise:
  "amplitude_assignment amp_matrix gate_dict i j \<noteq> Inl (Exception msg)"
  by (auto simp: amplitude_assignment_def gate_item_def number_at_def
      split: sum.splits option.splits gate_field.splits if_splits)

lemma assign_amplitude_matrix_raise:
  "fst (assign_amplitude_matrix gate amp_matrix gate_dict s) \<noteq> Inl (Exception msg)"
proof
  assume a: "fst (assign_amplitude_matrix gate amp_matrix gate_dict s) = Inl (Exception msg)"
  let ?body = "\<lambda>i. sequence_results (map (amplitude_assignment amp_matrix gate_dict i) [0..<4])"
  let ?cases = "map (\<lambda>i. map_sum id (\<lambda>body. (int i, body)) (?body i)) [0..<dict_len gate_dict]"
  from a have "sequence_results ?cases = Inl (Exception msg)"
    by (auto simp: assign_amplitude_matrix_def split: sum.splits)
  from sequence_results_raise [OF this]
  obtain i where "map_sum id (\<lambda>body. (int i, body)) (?body i) = Inl (Exception msg)"
    by auto
  then have "?body i = Inl (Exception msg)" by (cases "?body i") auto
  from sequence_results_raise [OF this]
  obtain j where "amplitude_assignment amp_matrix gate_dict i j = Inl (Exception msg)"
    by auto
  with amplitude_assignment_raise show False by blast
qed

lemma assign_elements_raise:
  "fst (assign_elements readout_elements I Q is s) = Inl e \<Longrightarrow> e = IndexError"
  by (induction readout_elements I Q "is" s rule: assign_elements.induct)
     (auto split: if_splits)

lemma assign_elements_raise_pair:
  "assign_elements readout_elements I Q is s = (Inl e, s') \<Longrightarrow> e = IndexError"
  using assign_elements_raise [of readout_elements I Q "is" s e] by simp

lemma qua_declaration_raise:
  "fst (qua_declaration n_qubits readout_elements s) \<noteq> Inl (Exception msg)"
  by (auto simp: qua_declaration_def Let_def split: prod.splits sum.splits
      dest: assign_elements_raise_pair)

lemma play_case_raise:
  "play_case amp_matrix qubit_el baseline_op j \<noteq> Inl (Exception msg)"
  by (auto simp: play_case_def amp_def split: sum.splits if_splits)

lemma play_cases_raise:
  "sequence_results (map (play_case amp_matrix qubit_el baseline_op) js) \<noteq> Inl (Exception msg)"
proof
  assume "sequence_results (map (play_case amp_matrix qubit_el baseline_op) js)
      = Inl (Exception msg)"
  from sequence_results_raise [OF this]
  obtain j where "Inl (Exception msg) = play_case amp_matrix qubit_el baseline_op j" by auto
  then have "play_case amp_matrix qubit_el baseline_op j = Inl (Exception msg)" by (rule sym)
  with play_case_raise show False by blast
qed

lemma play_T_gate_set_raise:
  "fst (play_T_gate_set gate amp_matrix qubit_el baseline_op s) \<noteq> Inl (Exception msg)"
  using play_cases_raise [of amp_matrix qubit_el baseline_op "[0..<2]" msg]
  by (auto simp: play_T_gate_set_def split: sum.splits)

lemma play_SW_gate_set_raise:
  "fst (play_SW_gate_set gate amp_matrix qubit_el baseline_op s) \<noteq> Inl (Exception msg)"
  using play_cases_raise [of amp_matrix qubit_el baseline_op "[0..<3]" msg]
  by (auto simp: play_SW_gate_set_def split: sum.splits)

lemma play_random_sq_gate_raise:
  "fst (play_random_sq_gate gate amp_matrix qubit_el gate_dict baseline_op s)
     \<noteq> Inl (Exception msg)"
  using play_T_gate_set_raise [of gate amp_matrix qubit_el baseline_op s msg]
    play_SW_gate_set_raise [of gate amp_matrix qubit_el baseline_op s msg]
  by (auto simp: play_random_sq_gate_def gate_item_def attribute_name_def attribute_label_def
      amp_def split: sum.splits option.splits gate_field.splits if_splits)

lemma cz_gate_raise:
  "fst (cz_gate control target CZ_operations s) \<noteq> Inl (Exception msg)"
  by (auto simp: cz_gate_def split: option.splits)

lemma gauss_raise:
  "fst (gauss amplitude mu sigma len xs) \<noteq> Inl (Exception msg)"
  by (auto simp: gauss_def int_truediv_def linspace_def float_pow2_def xalloc_def
      np_elementwise_def Let_def split_def split: sum.splits xfl.splits if_splits)

lemma cross_entropy_raise:
  "fst (cross_entropy p q epsilon st) \<noteq> Inl (Exception msg)"
  by (auto simp: cross_entropy_def np_maximum_def np_log_def np_multiply_def alloc_def Let_def
      split: sum.splits prod.splits if_splits)

lemma IQ_imbalance_call_raise:
  "fst (IQ_imbalance_call g phi st) \<noteq> Inl (Exception msg)"
  by (simp add: IQ_imbalance_call_def alloc_def Let_def)

lemma fit_exponential_decay_raise:
  assumes "fit_exponential_decay linregress curve_fit cycle_depths fidelities = Inl e"
  shows "e = IndexError
       \<or> library_raise (FitExponentialDecay linregress curve_fit cycle_depths fidelities) e"
  using assms
  by (auto simp: fit_exponential_decay_def library_raise_def boolean_index_def masked_def
      start_point_def Let_def split: sum.splits prod.splits if_splits)

lemma fit_exponential_decay_handler:
  assumes "length cycle_depths = length fidelities"
    and "linregress (masked cycle_depths fidelities) (map xlog (masked fidelities fidelities))
           = Inr fit"
    and "curve_fit exponential_decay (masked cycle_depths fidelities)
           (masked fidelities fidelities) (start_point fit) = Inl ValueError"
  shows "fit_exponential_decay linregress curve_fit cycle_depths fidelities
           = Inr (Fin 0, Fin 0, PInf, PInf)"
  using assms
  by (cases fit)
     (simp add: fit_exponential_decay_def boolean_index_def masked_def start_point_def Let_def)

lemma fit_function_raise:
  assumes "fit_function curve_fit x_values y_values function init_params = Inl e"
  shows "library_raise (FitFunction curve_fit x_values y_values function init_params) e"
  using assms
  by (auto simp: fit_function_def library_raise_def split: sum.splits prod.splits)

text \<open>
  Claim C1, as amended. Take any call of a function defined in the repository. If it
  raises a plain \<open>Exception\<close>, then either it is a call of \<open>reset_qubit\<close> or
  \<open>active_reset\<close> whose argument check fails, and the message is one of that
  function's messages; or it is a call of \<open>fit_exponential_decay\<close> or \<open>fit_function\<close>,
  and the exception was raised by a library function that it calls (\<open>linregress\<close>,
  \<open>curve_fit\<close> or the model function). For \<open>active_reset\<close> the converse holds too: it
  raises an \<open>Exception\<close> with its message exactly when \<open>max_tries\<close> is a number that
  is less than 1 or not integer-valued. And \<open>fit_exponential_decay\<close> handles one
  failure: when \<open>curve_fit\<close> raises \<open>ValueError\<close>, it returns \<open>(0, 0, inf, inf)\<close>.
\<close>

theorem own_exceptions:
  "(raises c s xs st = Some (Exception msg) \<longrightarrow>
      validation_raise c msg \<or> library_raise c (Exception msg))
   \<and> (raises (ActiveReset threshold qubit resonator max_tries Ig) s xs st = Some (Exception msg)
        \<longleftrightarrow> validation_raise (ActiveReset threshold qubit resonator max_tries Ig) msg)
   \<and> (length cycle_depths = length fidelities
      \<and> linregress (masked cycle_depths fidelities) (map xlog (masked fidelities fidelities))
          = Inr fit
      \<and> curve_fit exponential_decay (masked cycle_depths fidelities)
          (masked fidelities fidelities) (start_point fit) = Inl ValueError \<longrightarrow>
        fit_exponential_decay linregress curve_fit cycle_depths fidelities
          = Inr (Fin 0, Fin 0, PInf, PInf))"
proof -
  have all: "raises c s xs st = Some (Exception msg) \<longrightarrow>
      validation_raise c msg \<or> library_raise c (Exception msg)"
  proof
    assume r: "raises c s xs st = Some (Exception msg)"
    show "validation_raise c msg \<or> library_raise c (Exception msg)"
    proof (cases c)
      case (Gauss amplitude mu sigma len)
      with r gauss_raise [of amplitude mu sigma len xs msg] show ?thesis
        by (simp add: raised_by_def split: sum.splits)
    next
      case (IQImbalance g phi)
      with r IQ_imbalance_call_raise [of g phi st msg] show ?thesis
        by (simp add: raised_by_def split: sum.splits)
    next
      case (MeasureQubit0 qubit)
      with r show ?thesis by (simp add: raised_by_def returns_def)
    next
      case (MeasureQubit1 qubit)
      with r show ?thesis by (simp add: raised_by_def returns_def)
    next
      case (FitFunction curve_fit' x_values y_values fn init_params)
      with r fit_function_raise [of curve_fit' x_values y_values fn init_params
          "Exception msg"] show ?thesis
        by (simp add: raised_by_def split: sum.splits)
    next
      case (CosineModel x A drive_period phi)
      with r show ?thesis by (simp add: raised_by_def returns_def)
    next
      case (AssignAmplitudeMatrix gate amp_matrix gate_dict)
      with r assign_amplitude_matrix_raise [of gate amp_matrix gate_dict s msg] show ?thesis
        by (simp add: raised_by_def split: sum.splits)
    next
      case (QuaDeclaration n_qubits readout_elements)
      with r qua_declaration_raise [of n_qubits readout_elements s msg] show ?thesis
        by (simp add: raised_by_def split: sum.splits)
    next
      case (PlayTGateSet gate amp_matrix qubit_el baseline_op)
      with r play_T_gate_set_raise [of gate amp_matrix qubit_el baseline_op s msg] show ?thesis
        by (simp add: raised_by_def split: sum.splits)
    next
      case (PlaySWGateSet gate amp_matrix qubit_el baseline_op)
      with r play_SW_gate_set_raise [of gate amp_matrix qubit_el baseline_op s msg] show ?thesis
        by (simp add: raised_by_def split: sum.splits)
    next
      case (PlayRandomSqGate gate amp_matrix qubit_el gate_dict baseline_op)
      with r play_random_sq_gate_raise [of gate amp_matrix qubit_el gate_dict baseline_op s msg]
      show ?thesis
        by (simp add: raised_by_def split: sum.splits)
    next
      case (ResetQubit m q r' kw)
      with r have "fst (reset_qubit m q r' kw s) = Inl (Exception msg)"
        by (simp add: raised_by_def split: sum.splits)
      from reset_qubit_own [OF this] ResetQubit show ?thesis
        by (simp add: validation_raise_def)
    next
      case (ActiveReset th q r' mt ig)
      with r have "fst (active_reset th q r' mt ig s) = Inl (Exception msg)"
        by (simp add: raised_by_def split: sum.splits)
      with active_reset_own [of th q r' mt ig s msg] ActiveReset
      show ?thesis by (simp add: validation_raise_def)
    next
      case (CzGate control target CZ_operations)
      with r cz_gate_raise [of control target CZ_operations s msg] show ?thesis
        by (simp add: raised_by_def split: sum.splits)
    next
      case (Binary n len)
      with r show ?thesis by (simp add: raised_by_def returns_def)
    next
      case (CrossEntropy p q epsilon)
      with r cross_entropy_raise [of p q epsilon st msg] show ?thesis
        by (simp add: raised_by_def split: sum.splits)
    next
      case (CreateSubplot data subplot_number title depths seqs)
      with r show ?thesis by (simp add: raised_by_def returns_def)
    next
      case (ExponentialDecay cycle_depths' a layer_fid)
      with r show ?thesis by (simp add: raised_by_def returns_def)
    next
      case (FitExponentialDecay linregress' curve_fit' cycle_depths' fidelities')
      with r have "fit_exponential_decay linregress' curve_fit' cycle_depths' fidelities'
          = Inl (Exception msg)"
        by (simp add: raised_by_def split: sum.splits)
      from fit_exponential_decay_raise [OF this] FitExponentialDecay show ?thesis by simp
    qed
  qed
  have ar: "raises (ActiveReset threshold qubit resonator max_tries Ig) s xs st
        = Some (Exception msg)
      \<longleftrightarrow> validation_raise (ActiveReset threshold qubit resonator max_tries Ig) msg"
  proof -
    have "raises (ActiveReset threshold qubit resonator max_tries Ig) s xs st
          = Some (Exception msg)
        \<longleftrightarrow> fst (active_reset threshold qubit resonator max_tries Ig s) = Inl (Exception msg)"
      by (cases "fst (active_reset threshold qubit resonator max_tries Ig s)")
         (simp_all add: raised_by_def)
    with active_reset_own [of threshold qubit resonator max_tries Ig s msg] show ?thesis
      by (simp add: validation_raise_def)
  qed
  from all ar fit_exponential_decay_handler [of cycle_depths fidelities linregress fit curve_fit]
  show ?thesis by blast
qed

text \<open>
  The theorem on a call of \<open>reset_qubit\<close> without \<open>cooldown_time\<close>, and on a fit whose
  \<open>curve_fit\<close> raises \<open>ValueError\<close>.
\<close>

theorem own_exceptions_witness:
  "raises (ResetQubit ''cooldown'' ''q'' ''r'' Map.empty) empty_prog [] []
     = Some (Exception cooldown_time_message)
   \<and> validation_raise (ResetQubit ''cooldown'' ''q'' ''r'' Map.empty) cooldown_time_message
   \<and> \<not> library_raise (ResetQubit ''cooldown'' ''q'' ''r'' Map.empty)
         (Exception cooldown_time_message)
   \<and> length [Fin 1, Fin 2] = length [Fin (1 / 2), Fin (1 / 4)]
   \<and> fit_exponential_decay (\<lambda>x y. Inr (Fin 0, Fin 0)) (\<lambda>f x y p0. Inl ValueError)
        [Fin 1, Fin 2] [Fin (1 / 2), Fin (1 / 4)]
       = Inr (Fin 0, Fin 0, PInf, PInf)"
proof -
  let ?c = "ResetQubit ''cooldown'' ''q'' ''r'' Map.empty"
  let ?lr = "\<lambda>(x::xfl list) (y::xfl list). (Inr (Fin 0, Fin 0) :: exn + xfl \<times> xfl)"
  let ?cf = "(\<lambda>f x y p0. Inl ValueError) :: curve_fit_fn"
  note t = own_exceptions [where c = ?c and s = empty_prog and xs = "[]" and st = "[]"
      and msg = cooldown_time_message and cycle_depths = "[Fin 1, Fin 2]"
      and fidelities = "[Fin (1 / 2), Fin (1 / 4)]" and linregress = ?lr
      and fit = "(Fin 0, Fin 0)" and curve_fit = ?cf]
  have run: "raises ?c empty_prog [] [] = Some (Exception cooldown_time_message)"
    by (simp add: raised_by_def reset_qubit_def kwargs_get_def)
  have nl: "\<not> library_raise ?c (Exception cooldown_time_message)"
    by (simp add: library_raise_def)
  have v: "validation_raise ?c cooldown_time_message"
    using t run nl by blast
  have len: "length [Fin 1, Fin 2] = length [Fin (1 / 2), Fin (1 / 4)]" by simp
  have h: "fit_exponential_decay ?lr ?cf [Fin 1, Fin 2] [Fin (1 / 2), Fin (1 / 4)]
      = Inr (Fin 0, Fin 0, PInf, PInf)"
    using t len by simp
  from run v nl len h show ?thesis by blast
qed

text \<open>
  The claim as written fails: \<open>reset_qubit\<close> without \<open>cooldown_time\<close> and
  \<open>active_reset\<close> with \<open>max_tries = 0\<close> raise exceptions that \<open>macros.py\<close> constructs,
  and \<open>fit_exponential_decay\<close> does not surface a \<open>ValueError\<close> of \<open>curve_fit\<close>: it
  returns a value.
\<close>

theorem own_exceptions_counterexample:
  "fst (reset_qubit ''cooldown'' ''q'' ''r'' Map.empty empty_prog)
     = Inl (Exception cooldown_time_message)
   \<and> fst (active_reset (AFloat (Fin 0)) ''q'' ''r'' (AInt 0) ANone empty_prog)
     = Inl (Exception max_count_message)
   \<and> fit_exponential_decay (\<lambda>x y. Inr (Fin 0, Fin 0)) (\<lambda>f x y p0. Inl ValueError) [] []
     = Inr (Fin 0, Fin 0, PInf, PInf)"
  by (simp add: reset_qubit_def kwargs_get_def active_reset_def py_lt_def qua_declare_def
      empty_prog_def fit_exponential_decay_def boolean_index_def)

subsection \<open>The configuration dictionaries\<close>

text \<open>The tables of the two configurations that the claims read.\<close>

lemmas config_reading =
  dict_get_def dict_items_def dict_keys_def is_numeric_def num_val_def

lemma cavity_pulses_well_formed: "pulses_well_formed (config_cavity kHz us)"
  by (simp add: pulses_well_formed_def pulse_well_formed_def config_cavity_def
      config_reading Let_def)

lemma cavity_operations_defined: "operations_defined (config_cavity kHz us)"
  by (simp add: operations_defined_def config_cavity_def config_reading Let_def)

lemma rb_pulses_well_formed: "pulses_well_formed (config_rb lib)"
  by (simp add: pulses_well_formed_def pulse_well_formed_def config_rb_def
      config_pulses_def config_waveforms_def config_reading Let_def)

lemma rb_operations_defined: "operations_defined (config_rb lib)"
  by (simp add: operations_defined_def config_rb_def
      config_pulses_def config_elements_def config_reading Let_def)

text \<open>
  Claim C5. In both configuration dictionaries every pulse has an \<open>operation\<close>, a
  numeric \<open>length\<close> and a \<open>waveforms\<close> dictionary that names keys of the \<open>waveforms\<close>
  table only, and every operation of every element names a key of \<open>pulses\<close>. This
  holds whatever the library's unit factors and waveform functions are.
\<close>

theorem configs_well_formed:
  "pulses_well_formed (config_cavity kHz us) \<and> operations_defined (config_cavity kHz us)
   \<and> pulses_well_formed (config_rb lib) \<and> operations_defined (config_rb lib)"
  using cavity_pulses_well_formed cavity_operations_defined
    rb_pulses_well_formed rb_operations_defined
  by simp

lemma cavity_weights_consistent: "weights_consistent (config_cavity kHz us)"
  by (simp add: weights_consistent_def pulse_weights_consistent_def weights_cover_def
      config_cavity_def config_reading Let_def)

lemma rb_weights_consistent: "weights_consistent (config_rb lib)"
  by (simp add: weights_consistent_def pulse_weights_consistent_def weights_cover_def
      config_rb_def config_pulses_def config_integration_weights_def config_reading Let_def
      short_readout_len_def readout_len_def long_readout_len_def)

lemma cavity_measurement_pulses:
  "measurement_pulses (config_cavity kHz us) = [PStr ''DC_readout_pulse'', PStr ''AC_readout_pulse'']"
  by (simp add: measurement_pulses_def config_cavity_def config_reading Let_def)

lemma rb_measurement_pulses:
  "measurement_pulses (config_rb lib)
     = [PStr ''short_readout_pulse'', PStr ''readout_pulse'', PStr ''long_readout_pulse'']"
  by (simp add: measurement_pulses_def config_rb_def config_pulses_def config_reading)

text \<open>
  Claim C6. In both configuration dictionaries every integration-weights entry that
  a measurement pulse refers to has a \<open>cosine\<close> and a \<open>sine\<close> list, and the durations
  of each list add up to the \<open>length\<close> of the pulse. The first has two measurement
  pulses and the second three, so the statement is not empty.
\<close>

theorem configs_weights_consistent:
  "weights_consistent (config_cavity kHz us) \<and> weights_consistent (config_rb lib)
   \<and> measurement_pulses (config_cavity kHz us)
       = [PStr ''DC_readout_pulse'', PStr ''AC_readout_pulse'']
   \<and> measurement_pulses (config_rb lib)
       = [PStr ''short_readout_pulse'', PStr ''readout_pulse'', PStr ''long_readout_pulse'']"
  using cavity_weights_consistent rb_weights_consistent
    cavity_measurement_pulses rb_measurement_pulses
  by simp

end
